theory Spec2Isabelle
  imports Complex_Main "HOL-Library.AList" "HOL-Library.Multiset"
begin

section \<open>JavaScript values used by the CDP helper\<close>

text \<open>
  A plain object \<^verbatim>\<open>{}\<close> used as a dictionary (\<^verbatim>\<open>Record<string, T>\<close>) is the association list of
  its own properties, in insertion order. It inherits the members of \<^verbatim>\<open>Object.prototype\<close>:
  a read \<^verbatim>\<open>o[k]\<close> of a key that is not an own property gives the inherited member when \<open>k\<close>
  names one, and \<^verbatim>\<open>undefined\<close> otherwise; an assignment \<^verbatim>\<open>o[k] = v\<close> stores an own property,
  except for the key \<^verbatim>\<open>__proto__\<close>, whose inherited setter stores nothing (it ignores a string or
  \<^verbatim>\<open>undefined\<close>, and takes an object as the new prototype).

  A \<^verbatim>\<open>number\<close> that the code computes with is a real, or \<^const>\<open>None\<close> for \<^verbatim>\<open>NaN\<close> and
  \<^verbatim>\<open>undefined\<close>; rounding, infinities and the sign of zero are not modelled. Integers of the
  protocol (node ids, depths, counts, string-table indices) are \<^typ>\<open>int\<close>.
\<close>

type_synonym 'v obj = "(string \<times> 'v) list"

definition Object_prototype :: "string list" where
  \<comment> \<open>The names of the members that every plain object inherits.\<close>
  "Object_prototype =
     [''constructor'', ''__defineGetter__'', ''__defineSetter__'', ''hasOwnProperty'',
      ''__lookupGetter__'', ''__lookupSetter__'', ''isPrototypeOf'', ''propertyIsEnumerable'',
      ''toString'', ''valueOf'', ''__proto__'', ''toLocaleString'']"

datatype 'v lookup = Own 'v | Inherited string | Undefined

definition obj_set :: "'v obj \<Rightarrow> string \<Rightarrow> 'v \<Rightarrow> 'v obj" where
  \<comment> \<open>\<^verbatim>\<open>o[k] = v\<close>\<close>
  "obj_set ob k v = (if k = ''__proto__'' then ob else AList.update k v ob)"

definition obj_get :: "'v obj \<Rightarrow> string \<Rightarrow> 'v lookup" where
  \<comment> \<open>\<^verbatim>\<open>o[k]\<close>. For a key that names no member of \<^verbatim>\<open>Object.prototype\<close>, such as \<^verbatim>\<open>id\<close> and
      \<^verbatim>\<open>class\<close>, the read is \<^const>\<open>map_of\<close> on the own properties, and is written so below.\<close>
  "obj_get ob k =
     (case map_of ob k of
        Some v \<Rightarrow> Own v
      | None \<Rightarrow> if k \<in> set Object_prototype then Inherited k else Undefined)"

type_synonym number = "real option"

definition elem_at :: "'a list \<Rightarrow> nat \<Rightarrow> 'a option" where
  \<comment> \<open>\<^verbatim>\<open>xs[i]\<close>: \<^verbatim>\<open>undefined\<close> out of range. As an argument of \<^verbatim>\<open>Math.min\<close> or \<^verbatim>\<open>Math.max\<close>,
      \<^verbatim>\<open>undefined\<close> converts to \<^verbatim>\<open>NaN\<close>; both are \<^const>\<open>None\<close>.\<close>
  "elem_at xs i = (if i < length xs then Some (xs ! i) else None)"

definition elem_at_int :: "'a list \<Rightarrow> int \<Rightarrow> 'a option" where
  \<comment> \<open>\<^verbatim>\<open>xs[i]\<close> for an integer index received from the protocol, which may be negative.\<close>
  "elem_at_int xs i = (if 0 \<le> i \<and> i < int (length xs) then Some (xs ! nat i) else None)"

definition Math_min :: "number \<Rightarrow> number \<Rightarrow> number \<Rightarrow> number \<Rightarrow> number" where
  "Math_min a b c d =
     (case (a, b, c, d) of
        (Some a', Some b', Some c', Some d') \<Rightarrow> Some (min a' (min b' (min c' d')))
      | _ \<Rightarrow> None)"

definition Math_max :: "number \<Rightarrow> number \<Rightarrow> number \<Rightarrow> number \<Rightarrow> number" where
  "Math_max a b c d =
     (case (a, b, c, d) of
        (Some a', Some b', Some c', Some d') \<Rightarrow> Some (max a' (max b' (max c' d')))
      | _ \<Rightarrow> None)"

definition minus_number :: "number \<Rightarrow> number \<Rightarrow> number" where
  "minus_number a b = (case (a, b) of (Some a', Some b') \<Rightarrow> Some (a' - b') | _ \<Rightarrow> None)"

definition or_empty :: "string option \<Rightarrow> string" where
  \<comment> \<open>\<^verbatim>\<open>v || ''\<close> for a string or \<^verbatim>\<open>undefined\<close>.\<close>
  "or_empty v = (case v of None \<Rightarrow> [] | Some s \<Rightarrow> s)"

definition or_null :: "string option option \<Rightarrow> string option" where
  \<comment> \<open>\<^verbatim>\<open>attrMap[k] || null\<close>: the key may be missing, or hold \<^verbatim>\<open>undefined\<close> or a string.\<close>
  "or_null v = (case v of Some (Some s) \<Rightarrow> (if s = [] then None else Some s) | _ \<Rightarrow> None)"

fun toLowerChar :: "char \<Rightarrow> char" where
  "toLowerChar (Char b0 b1 b2 b3 b4 b5 b6 b7) =
     (let n = (of_char (Char b0 b1 b2 b3 b4 b5 b6 b7) :: nat)
      in if 65 \<le> n \<and> n \<le> 90 then Char b0 b1 b2 b3 b4 True b6 b7
         else Char b0 b1 b2 b3 b4 b5 b6 b7)"

definition toLowerCase :: "string \<Rightarrow> string" where
  \<comment> \<open>\<^verbatim>\<open>String.prototype.toLowerCase\<close> on ASCII letters.\<close>
  "toLowerCase s = map toLowerChar s"

section \<open>Quad formatter and style property projector\<close>

record rect =
  rect_x :: number
  rect_y :: number
  rect_width :: number
  rect_height :: number

definition formatQuad :: "real list \<Rightarrow> rect" where
  "formatQuad quad =
     (let x = Math_min (elem_at quad 0) (elem_at quad 2) (elem_at quad 4) (elem_at quad 6);
          y = Math_min (elem_at quad 1) (elem_at quad 3) (elem_at quad 5) (elem_at quad 7);
          width = minus_number
            (Math_max (elem_at quad 0) (elem_at quad 2) (elem_at quad 4) (elem_at quad 6)) x;
          height = minus_number
            (Math_max (elem_at quad 1) (elem_at quad 3) (elem_at quad 5) (elem_at quad 7)) y
      in \<lparr>rect_x = x, rect_y = y, rect_width = width, rect_height = height\<rparr>)"

definition quad_of_corners :: "(real \<times> real) list \<Rightarrow> real list" where
  \<comment> \<open>The protocol's quad layout: x1,y1, x2,y2, x3,y3, x4,y4.\<close>
  "quad_of_corners ps = concat (map (\<lambda>(px, py). [px, py]) ps)"

record css_property =
  prop_name :: string
  prop_value :: string
  prop_disabled :: "bool option"

fun cssPropertiesToObject_loop ::
  "css_property list \<Rightarrow> string list option \<Rightarrow> string obj \<Rightarrow> string obj" where
  "cssPropertiesToObject_loop [] filterProps result = result"
| "cssPropertiesToObject_loop (prop # rest) filterProps result =
     (if prop_disabled prop = Some True then cssPropertiesToObject_loop rest filterProps result
      else if prop_value prop = [] then cssPropertiesToObject_loop rest filterProps result
      else if (case filterProps of None \<Rightarrow> False | Some fs \<Rightarrow> prop_name prop \<notin> set fs)
        then cssPropertiesToObject_loop rest filterProps result
      else cssPropertiesToObject_loop rest filterProps
             (obj_set result (prop_name prop) (prop_value prop)))"

definition cssPropertiesToObject :: "css_property list \<Rightarrow> string list option \<Rightarrow> string obj" where
  "cssPropertiesToObject properties filterProps =
     cssPropertiesToObject_loop properties filterProps []"

definition eligible :: "css_property \<Rightarrow> bool" where
  \<comment> \<open>A property that is neither disabled nor empty-valued.\<close>
  "eligible p \<longleftrightarrow> prop_disabled p \<noteq> Some True \<and> prop_value p \<noteq> []"

definition passes :: "string list option \<Rightarrow> css_property \<Rightarrow> bool" where
  \<comment> \<open>The negation of \<^verbatim>\<open>filterProps && !filterProps.includes(prop.name)\<close>.\<close>
  "passes filterProps p = (case filterProps of None \<Rightarrow> True | Some fs \<Rightarrow> prop_name p \<in> set fs)"

definition stored :: "string list option \<Rightarrow> css_property \<Rightarrow> bool" where
  \<comment> \<open>The properties for which the loop of \<^const>\<open>cssPropertiesToObject\<close> leaves an own property
      in the result.\<close>
  "stored filterProps p \<longleftrightarrow> eligible p \<and> passes filterProps p \<and> prop_name p \<noteq> ''__proto__''"

section \<open>Comparator\<close>

record computed_property =
  cp_name :: string
  cp_value :: string

text \<open>
  A value that the comparator holds: a string, or a member of \<^verbatim>\<open>Object.prototype\<close> that a style
  map inherits (a function, or for \<^verbatim>\<open>__proto__\<close> the prototype itself). Two values are strictly
  equal when they are the same string or the same member; a member is truthy.
\<close>

datatype js_value = Str string | Member string

definition or_empty_value :: "string lookup \<Rightarrow> js_value" where
  \<comment> \<open>\<^verbatim>\<open>styleMap[prop] || ''\<close>\<close>
  "or_empty_value v =
     (case v of Own s \<Rightarrow> Str s | Inherited k \<Rightarrow> Member k | Undefined \<Rightarrow> Str [])"

definition truthy_value :: "js_value \<Rightarrow> bool" where
  "truthy_value v \<longleftrightarrow> (case v of Str s \<Rightarrow> s \<noteq> [] | Member k \<Rightarrow> True)"

record difference =
  element1 :: js_value
  element2 :: js_value

definition defaultProps :: "string list" where
  "defaultProps =
     [''display'', ''position'', ''width'', ''height'', ''margin'', ''padding'', ''border'',
      ''color'', ''background-color'', ''font-family'', ''font-size'', ''font-weight'',
      ''line-height'', ''text-align'', ''flex-direction'', ''justify-content'', ''align-items'',
      ''gap'', ''border-radius'', ''box-shadow'', ''opacity'']"

fun styleMap_loop :: "string list \<Rightarrow> computed_property list \<Rightarrow> string obj \<Rightarrow> string obj" where
  \<comment> \<open>\<^verbatim>\<open>for (const prop of styles.computedStyle) if (propsToCompare.includes(prop.name)) ...\<close>\<close>
  "styleMap_loop propsToCompare [] styleMap = styleMap"
| "styleMap_loop propsToCompare (prop # rest) styleMap =
     (if cp_name prop \<in> set propsToCompare
      then styleMap_loop propsToCompare rest (obj_set styleMap (cp_name prop) (cp_value prop))
      else styleMap_loop propsToCompare rest styleMap)"

fun compare_loop ::
  "string list \<Rightarrow> string obj \<Rightarrow> string obj \<Rightarrow> difference obj \<times> string list \<Rightarrow>
   difference obj \<times> string list" where
  \<comment> \<open>\<^verbatim>\<open>for (const prop of propsToCompare)\<close>, carrying \<^verbatim>\<open>differences\<close> and \<^verbatim>\<open>same\<close>.\<close>
  "compare_loop [] styleMap1 styleMap2 (differences, same) = (differences, same)"
| "compare_loop (prop # rest) styleMap1 styleMap2 (differences, same) =
     (let val1 = or_empty_value (obj_get styleMap1 prop);
          val2 = or_empty_value (obj_get styleMap2 prop)
      in if val1 \<noteq> val2
         then compare_loop rest styleMap1 styleMap2
                (obj_set differences prop \<lparr>element1 = val1, element2 = val2\<rparr>, same)
         else if truthy_value val1
         then compare_loop rest styleMap1 styleMap2 (differences, same @ [prop])
         else compare_loop rest styleMap1 styleMap2 (differences, same))"

definition compare_styles ::
  "string list \<Rightarrow> computed_property list \<Rightarrow> computed_property list \<Rightarrow>
   difference obj \<times> string list" where
  \<comment> \<open>The part of the \<^verbatim>\<open>compare_elements\<close> handler after the two style fetches.\<close>
  "compare_styles propsToCompare computedStyle1 computedStyle2 =
     (let styleMap1 = styleMap_loop propsToCompare computedStyle1 [];
          styleMap2 = styleMap_loop propsToCompare computedStyle2 []
      in compare_loop propsToCompare styleMap1 styleMap2 ([], []))"

definition computed_value :: "computed_property list \<Rightarrow> string \<Rightarrow> string" where
  \<comment> \<open>An element's value for a property: that of the last entry of its computed style with
      that name, normalized to the empty string when there is none.\<close>
  "computed_value computedStyle p =
     or_empty (map_of (rev (map (\<lambda>c. (cp_name c, cp_value c)) computedStyle)) p)"

definition swap_difference :: "difference \<Rightarrow> difference" where
  "swap_difference d = \<lparr>element1 = element2 d, element2 = element1 d\<rparr>"

section \<open>Tree walker\<close>

text \<open>
  A node description of the protocol (\<^verbatim>\<open>DOM.Node\<close>), with the fields the handlers read.
  \<^verbatim>\<open>attributes\<close> is the protocol's flat array \<^verbatim>\<open>[name1, value1, name2, value2, ...]\<close>.
\<close>

datatype dom_node = Node
  (nodeName: string)
  (nodeType: int)
  (node_backendNodeId: int)
  (node_childNodeCount: "int option")
  (node_attributes: "string list option")
  (node_children: "dom_node list option")

text \<open>The handler's \<^verbatim>\<open>TreeNode\<close>: \<^verbatim>\<open>{tag, id?, class?, children?}\<close>.\<close>

datatype tree_node = TreeNode
  (tn_tag: string)
  (tn_id: "string option")
  (tn_class: "string option")
  (tn_children: "tree_node list option")

fun attrMap_loop :: "string list \<Rightarrow> string option obj \<Rightarrow> string option obj" where
  \<comment> \<open>\<^verbatim>\<open>for (let i = 0; i < attrs.length; i += 2) attrMap[attrs[i]] = attrs[i + 1]\<close>;
      on an odd-length array the last value read is \<^verbatim>\<open>undefined\<close>.\<close>
  "attrMap_loop [] attrMap = attrMap"
| "attrMap_loop [k] attrMap = obj_set attrMap k None"
| "attrMap_loop (k # v # rest) attrMap = attrMap_loop rest (obj_set attrMap k (Some v))"

definition attrMap_of :: "string list \<Rightarrow> string option obj" where
  "attrMap_of attrs = attrMap_loop attrs []"

fun formatNode :: "int \<Rightarrow> dom_node option \<Rightarrow> int \<Rightarrow> tree_node option" where
  \<comment> \<open>The first argument is \<^verbatim>\<open>request.params.depth\<close>, which the closure captures.
      In the result \<^const>\<open>None\<close> is \<^verbatim>\<open>null\<close>.\<close>
  "formatNode depth None currentDepth = None"
| "formatNode depth (Some (Node nm ty b cc ats chs)) currentDepth =
     (if currentDepth > depth then None
      else if ty = 3 \<or> ty = 8 then None
      else
        let attrs = (case ats of None \<Rightarrow> [] | Some a \<Rightarrow> a);
            attrMap = attrMap_of attrs;
            tag = toLowerCase nm;
            id' = or_null (map_of attrMap ''id'');
            class' = or_null (map_of attrMap ''class'')
        in (case chs of
              Some cs \<Rightarrow>
                if currentDepth < depth then
                  (let children = map the (filter (\<lambda>c. c \<noteq> None)
                         (map (\<lambda>child. formatNode depth (Some child) (currentDepth + 1)) cs))
                   in if length children > 0
                      then Some (TreeNode tag id' class' (Some children))
                      else Some (TreeNode tag id' class' None))
                else Some (TreeNode tag id' class' None)
            | None \<Rightarrow> Some (TreeNode tag id' class' None)))"

definition kept_children :: "int \<Rightarrow> dom_node list \<Rightarrow> int \<Rightarrow> tree_node list" where
  \<comment> \<open>The \<^verbatim>\<open>children\<close> list that \<^const>\<open>formatNode\<close> computes at depth \<open>d\<close>.\<close>
  "kept_children N cs d =
     map the (filter (\<lambda>c. c \<noteq> None) (map (\<lambda>child. formatNode N (Some child) (d + 1)) cs))"

fun node_depths :: "nat \<Rightarrow> tree_node \<Rightarrow> nat list" where
  \<comment> \<open>The depth of every node of a formatted tree, the root being at depth \<open>d\<close>.\<close>
  "node_depths d (TreeNode tag i c chs) =
     (case chs of
        None \<Rightarrow> [d]
      | Some ts \<Rightarrow> d # concat (map (node_depths (d + 1)) ts))"

fun entry_for :: "tree_node \<Rightarrow> dom_node \<Rightarrow> bool" where
  \<comment> \<open>An output tree is made of entries for source nodes: each entry stands for a node that is
      neither text (3) nor comment (8), carries that node's lower-cased name and its non-empty
      \<^verbatim>\<open>id\<close> and \<^verbatim>\<open>class\<close> attributes, and its children, when the field is present, are a
      non-empty list of entries for children of that node.\<close>
  "entry_for (TreeNode tag i c chs) n \<longleftrightarrow>
     nodeType n \<noteq> 3 \<and> nodeType n \<noteq> 8
     \<and> tag = toLowerCase (nodeName n)
     \<and> i = or_null (map_of (attrMap_of (case node_attributes n of None \<Rightarrow> [] | Some a \<Rightarrow> a)) ''id'')
     \<and> c = or_null (map_of (attrMap_of (case node_attributes n of None \<Rightarrow> [] | Some a \<Rightarrow> a)) ''class'')
     \<and> (case chs of
          None \<Rightarrow> True
        | Some ts \<Rightarrow>
            ts \<noteq> [] \<and>
            (\<forall>t \<in> set ts. \<exists>ch \<in> set (case node_children n of None \<Rightarrow> [] | Some cs \<Rightarrow> cs).
               entry_for t ch))"

section \<open>CDP session\<close>

text \<open>
  A handler runs against the CDP session of the selected page. The session is modelled by
  the list of commands sent on it so far, oldest first; \<^verbatim>\<open>client.send\<close> appends the command and
  returns the browser's reply or fails with its error. The browser is a record of responders,
  one for each shape of reply, each reading the commands sent so far and the command; the
  theorems about the commands a handler sends hold for every such browser. The fixed visual configurations of the overlay
  commands are not part of the modelled command. Errors are values: a handler returns
  \<^const>\<open>Inl\<close> of the error it throws.
\<close>

datatype error =
    UnknownUid string
  | ResolutionError
  | ProtocolError string
  | InvalidParams string

datatype command =
    DOM_enable
  | DOM_getDocument int "bool option"
  | DOM_pushNodesByBackendIdsToFrontend "int list"
  | DOM_describeNode int int "bool option"
  | DOM_getAttributes int
  | DOM_getBoxModel int
  | DOM_getOuterHTML int
  | DOM_requestChildNodes int int bool
  | DOM_querySelector int string
  | DOM_querySelectorAll int string
  | DOM_performSearch string bool
  | DOM_getSearchResults string int int
  | DOM_discardSearchResults string
  | DOM_getNodeForLocation int int bool bool
  | DOM_getContentQuads int
  | DOM_resolveNode int
  | DOMDebugger_getEventListeners "string option" int bool
  | Runtime_releaseObject string
  | CSS_enable
  | CSS_getComputedStyleForNode int
  | CSS_getMatchedStylesForNode int
  | CSS_getPlatformFontsForNode int
  | CSS_forcePseudoState int "string list"
  | Overlay_enable
  | Overlay_highlightNode int
  | Overlay_setShowGridOverlays int
  | Overlay_setShowFlexOverlays int
  | Accessibility_enable
  | Accessibility_getAXNodeAndAncestors int
  | Accessibility_getPartialAXTree int bool
  | DOMSnapshot_enable
  | DOMSnapshot_captureSnapshot "string list" bool bool

type_synonym session = "command list"

record box_model =
  bm_content :: "real list"
  bm_padding :: "real list"
  bm_border :: "real list"
  bm_margin :: "real list"
  bm_width :: int
  bm_height :: int

record css_rule =
  rule_selectors :: "string list option"
  rule_cssProperties :: "css_property list option"
  rule_origin :: string

record matched_styles =
  ms_inlineStyle :: "css_property list option"
  ms_matchedCSSRules :: "css_rule list option"
  ms_inherited :: "css_rule list option list option"

record location_reply =
  loc_backendNodeId :: int
  loc_nodeId :: "int option"
  loc_frameId :: string

record snapshot_document =
  doc_documentURL :: int
  doc_nodeName :: "int list option"
  doc_attributes :: "int list list option"
  doc_bounds :: "real list list option"

record snapshot =
  snap_documents :: "snapshot_document list"
  snap_strings :: "string list"

record event_listener =
  ls_type :: string
  ls_useCapture :: bool
  ls_passive :: bool
  ls_once :: bool
  ls_handler_description :: "string option"
  ls_scriptId :: string
  ls_lineNumber :: int
  ls_columnNumber :: int

record platform_font =
  pf_familyName :: string
  pf_postScriptName :: string
  pf_glyphCount :: int
  pf_isCustomFont :: bool

text \<open>
  An accessibility value \<^verbatim>\<open>{type, value?}\<close> is represented by its optional \<^verbatim>\<open>value\<close>, rendered as
  a string; an optional field holding such a value is an option of that.
\<close>

record ax_property =
  axp_name :: string
  axp_value :: "string option"

record ax_tree_node =
  axn_nodeId :: string
  axn_role :: "string option option"
  axn_name :: "string option option"
  axn_description :: "string option option"
  axn_value :: "string option option"
  axn_properties :: "ax_property list option"
  axn_childIds :: "string list option"
  axn_ignored :: bool
  axn_ignoredReasons :: "ax_property list option"

record browser =
  reply_void :: "session \<Rightarrow> command \<Rightarrow> error + unit"
  reply_getDocument :: "session \<Rightarrow> command \<Rightarrow> error + int"
  reply_pushNodes :: "session \<Rightarrow> command \<Rightarrow> error + int list option"
  reply_describeNode :: "session \<Rightarrow> command \<Rightarrow> error + dom_node"
  reply_getAttributes :: "session \<Rightarrow> command \<Rightarrow> error + string list"
  reply_getBoxModel :: "session \<Rightarrow> command \<Rightarrow> error + box_model"
  reply_getOuterHTML :: "session \<Rightarrow> command \<Rightarrow> error + string"
  reply_querySelector :: "session \<Rightarrow> command \<Rightarrow> error + int"
  reply_querySelectorAll :: "session \<Rightarrow> command \<Rightarrow> error + int list"
  reply_performSearch :: "session \<Rightarrow> command \<Rightarrow> error + string \<times> int"
  reply_getSearchResults :: "session \<Rightarrow> command \<Rightarrow> error + int list"
  reply_getNodeForLocation :: "session \<Rightarrow> command \<Rightarrow> error + location_reply"
  reply_getComputedStyle :: "session \<Rightarrow> command \<Rightarrow> error + computed_property list"
  reply_getMatchedStyles :: "session \<Rightarrow> command \<Rightarrow> error + matched_styles"
  reply_captureSnapshot :: "session \<Rightarrow> command \<Rightarrow> error + snapshot"
  reply_getContentQuads :: "session \<Rightarrow> command \<Rightarrow> error + real list list"
  reply_resolveNode :: "session \<Rightarrow> command \<Rightarrow> error + string option"
  reply_getEventListeners :: "session \<Rightarrow> command \<Rightarrow> error + event_listener list"
  reply_getPlatformFonts :: "session \<Rightarrow> command \<Rightarrow> error + platform_font list"
  reply_getAXNodes :: "session \<Rightarrow> command \<Rightarrow> error + ax_tree_node list"

type_synonym 'a io = "session \<Rightarrow> (error + 'a) \<times> session"

definition send :: "(session \<Rightarrow> command \<Rightarrow> error + 'a) \<Rightarrow> command \<Rightarrow> 'a io" where
  \<comment> \<open>\<^verbatim>\<open>await client.send(method, params)\<close>\<close>
  "send reply c s = (reply s c, s @ [c])"

definition return_io :: "'a \<Rightarrow> 'a io" where
  "return_io a s = (Inr a, s)"

definition throw :: "error \<Rightarrow> 'a io" where
  "throw e s = (Inl e, s)"

definition bind_io :: "'a io \<Rightarrow> ('a \<Rightarrow> 'b io) \<Rightarrow> 'b io" where
  \<comment> \<open>Sequencing: an error of the first action ends the sequence.\<close>
  "bind_io m f s = (case m s of (Inl e, s') \<Rightarrow> (Inl e, s') | (Inr a, s') \<Rightarrow> f a s')"

definition try_catch :: "'a io \<Rightarrow> 'a io \<Rightarrow> 'a io" where
  \<comment> \<open>\<^verbatim>\<open>try { m } catch { h }\<close>, the handler not reading the error.\<close>
  "try_catch m h s = (case m s of (Inl e, s') \<Rightarrow> h s' | (Inr a, s') \<Rightarrow> (Inr a, s'))"

definition resolveToNodeId :: "browser \<Rightarrow> int \<Rightarrow> int io" where
  "resolveToNodeId br backendNodeId =
     bind_io (send (reply_pushNodes br) (DOM_pushNodesByBackendIdsToFrontend [backendNodeId]))
       (\<lambda>nodeIds.
          case nodeIds of
            None \<Rightarrow> throw ResolutionError
          | Some [] \<Rightarrow> throw ResolutionError
          | Some (first # _) \<Rightarrow>
              if first = 0 then throw ResolutionError else return_io first)"

definition ensureDomEnabled :: "browser \<Rightarrow> unit io" where
  "ensureDomEnabled br =
     bind_io (send (reply_void br) DOM_enable)
       (\<lambda>_. bind_io (send (reply_getDocument br) (DOM_getDocument 0 None))
          (\<lambda>_. return_io ()))"

definition ensureCssEnabled :: "browser \<Rightarrow> unit io" where
  "ensureCssEnabled br = send (reply_void br) CSS_enable"

definition ensureOverlayEnabled :: "browser \<Rightarrow> unit io" where
  "ensureOverlayEnabled br = send (reply_void br) Overlay_enable"

text \<open>
  The external lookup \<^verbatim>\<open>context.getAXNodeByUid\<close>, and the test
  \<^verbatim>\<open>!axNode?.backendNodeId\<close> that every handler taking a UID applies to its result: the id is
  unusable when the node is missing, has no \<^verbatim>\<open>backendNodeId\<close>, or has the id 0.
\<close>

record ax_node =
  ax_backendNodeId :: "int option"

record tool_context =
  getAXNodeByUid :: "string \<Rightarrow> ax_node option"

definition usable_backendNodeId :: "ax_node option \<Rightarrow> int option" where
  "usable_backendNodeId axNode =
     (case axNode of
        None \<Rightarrow> None
      | Some a \<Rightarrow>
          (case ax_backendNodeId a of
             None \<Rightarrow> None
           | Some b \<Rightarrow> if b = 0 then None else Some b))"

definition idle_browser :: browser where
  \<comment> \<open>A browser for examples: every command succeeds, on an empty page.\<close>
  "idle_browser =
     \<lparr>reply_void = (\<lambda>s c. Inr ()),
      reply_getDocument = (\<lambda>s c. Inr 1),
      reply_pushNodes = (\<lambda>s c. Inr (Some [])),
      reply_describeNode = (\<lambda>s c. Inr (Node ''HTML'' 1 1 None None None)),
      reply_getAttributes = (\<lambda>s c. Inr []),
      reply_getBoxModel = (\<lambda>s c. Inl (ProtocolError ''Could not compute box model.'')),
      reply_getOuterHTML = (\<lambda>s c. Inr ''<html></html>''),
      reply_querySelector = (\<lambda>s c. Inr 0),
      reply_querySelectorAll = (\<lambda>s c. Inr []),
      reply_performSearch = (\<lambda>s c. Inr (''1'', 0)),
      reply_getSearchResults = (\<lambda>s c. Inr []),
      reply_getNodeForLocation =
        (\<lambda>s c. Inr \<lparr>loc_backendNodeId = 0, loc_nodeId = None, loc_frameId = []\<rparr>),
      reply_getComputedStyle = (\<lambda>s c. Inr []),
      reply_getMatchedStyles =
        (\<lambda>s c. Inr \<lparr>ms_inlineStyle = None, ms_matchedCSSRules = None, ms_inherited = None\<rparr>),
      reply_captureSnapshot = (\<lambda>s c. Inr \<lparr>snap_documents = [], snap_strings = []\<rparr>),
      reply_getContentQuads = (\<lambda>s c. Inr []),
      reply_resolveNode = (\<lambda>s c. Inr None),
      reply_getEventListeners = (\<lambda>s c. Inr []),
      reply_getPlatformFonts = (\<lambda>s c. Inr []),
      reply_getAXNodes = (\<lambda>s c. Inr [])\<rparr>"

section \<open>Tool handlers\<close>

text \<open>
  A handler is modelled from the point where the page is selected and its session obtained.
  It returns the value it passes to \<^verbatim>\<open>JSON.stringify\<close>; a record field of option type that is
  \<^const>\<open>None\<close> is \<^verbatim>\<open>null\<close> or an omitted field, as the handler has it.
\<close>

subsection \<open>\<^verbatim>\<open>inspect_element\<close>\<close>

record inspect_params =
  ip_uid :: string
  ip_includeHtml :: bool
  ip_maxHtmlLength :: int

record box_model_out =
  bo_content :: rect
  bo_padding :: rect
  bo_border :: rect
  bo_margin :: rect
  bo_width :: int
  bo_height :: int

record inspect_result =
  ir_uid :: string
  ir_tagName :: string
  ir_nodeType :: int
  ir_id :: "string option"
  ir_className :: "string option"
  ir_attributes :: "string option obj"
  ir_childCount :: int
  ir_boxModel :: "box_model_out option"
  ir_outerHTML :: "string option"

definition format_box_model :: "box_model \<Rightarrow> box_model_out" where
  "format_box_model model =
     \<lparr>bo_content = formatQuad (bm_content model),
      bo_padding = formatQuad (bm_padding model),
      bo_border = formatQuad (bm_border model),
      bo_margin = formatQuad (bm_margin model),
      bo_width = bm_width model,
      bo_height = bm_height model\<rparr>"

definition truncate_html :: "int \<Rightarrow> string \<Rightarrow> string" where
  "truncate_html maxHtmlLength outerHTML =
     (if int (length outerHTML) > maxHtmlLength
      then take (nat maxHtmlLength) outerHTML @ CHR 0x0A # ''... (truncated)''
      else outerHTML)"

definition inspectElement :: "browser \<Rightarrow> tool_context \<Rightarrow> inspect_params \<Rightarrow> inspect_result io" where
  "inspectElement br ctx params =
     bind_io (ensureDomEnabled br) (\<lambda>_.
     case usable_backendNodeId (getAXNodeByUid ctx (ip_uid params)) of
       None \<Rightarrow> throw (UnknownUid (ip_uid params))
     | Some backendNodeId \<Rightarrow>
     bind_io (resolveToNodeId br backendNodeId) (\<lambda>nodeId.
     bind_io (send (reply_describeNode br) (DOM_describeNode nodeId 1 (Some True))) (\<lambda>node.
     bind_io (send (reply_getAttributes br) (DOM_getAttributes nodeId)) (\<lambda>attributes.
     let attrMap = attrMap_of attributes in
     bind_io (try_catch
                (bind_io (send (reply_getBoxModel br) (DOM_getBoxModel nodeId))
                   (\<lambda>model. return_io (Some (format_box_model model))))
                (return_io None)) (\<lambda>boxModel.
     bind_io (if ip_includeHtml params
              then try_catch
                     (bind_io (send (reply_getOuterHTML br) (DOM_getOuterHTML nodeId))
                        (\<lambda>outerHTML. return_io (truncate_html (ip_maxHtmlLength params) outerHTML)))
                     (return_io [])
              else return_io []) (\<lambda>outerHTML.
     return_io
       \<lparr>ir_uid = ip_uid params,
        ir_tagName = toLowerCase (nodeName node),
        ir_nodeType = nodeType node,
        ir_id = or_null (map_of attrMap ''id''),
        ir_className = or_null (map_of attrMap ''class''),
        ir_attributes = attrMap,
        ir_childCount = (case node_childNodeCount node of None \<Rightarrow> 0 | Some c \<Rightarrow> c),
        ir_boxModel = boxModel,
        ir_outerHTML = (if ip_includeHtml params then Some outerHTML else None)\<rparr>))))))"

subsection \<open>\<^verbatim>\<open>get_element_styles\<close>\<close>

record styles_params =
  st_uid :: string
  st_includeInherited :: bool
  st_includeComputed :: bool
  st_properties :: "string list option"

record matched_rule =
  mr_selector :: "string option"
  mr_origin :: "string option"
  mr_properties :: "string obj"

record inherited_rules =
  ih_ancestorLevel :: nat
  ih_matchedRules :: "matched_rule list"

record styles_result =
  sr_computed :: "string obj option"
  sr_inline :: "string obj option"
  sr_matchedRules :: "matched_rule list option"
  sr_inherited :: "inherited_rules list option"

definition defaultProperties :: "string list" where
  "defaultProperties =
     [''display'', ''position'', ''width'', ''height'', ''margin'', ''margin-top'',
      ''margin-right'', ''margin-bottom'', ''margin-left'', ''padding'', ''padding-top'',
      ''padding-right'', ''padding-bottom'', ''padding-left'', ''border'', ''border-width'',
      ''border-style'', ''border-color'', ''border-radius'', ''color'', ''background-color'',
      ''background'', ''font-family'', ''font-size'', ''font-weight'', ''line-height'',
      ''text-align'', ''flex-direction'', ''justify-content'', ''align-items'', ''gap'',
      ''grid-template-columns'', ''grid-template-rows'', ''opacity'', ''visibility'',
      ''overflow'', ''z-index'', ''box-shadow'', ''transform'', ''transition'']"

fun join :: "string \<Rightarrow> string list \<Rightarrow> string" where
  "join sep [] = []"
| "join sep [x] = x"
| "join sep (x # y # rest) = x @ sep @ join sep (y # rest)"

definition format_rule :: "string list option \<Rightarrow> bool \<Rightarrow> css_rule \<Rightarrow> matched_rule option" where
  \<comment> \<open>The body of the \<^verbatim>\<open>map\<close> over matched rules; \<open>withOrigin\<close> is false for inherited rules,
      whose entries have no \<^verbatim>\<open>origin\<close>.\<close>
  "format_rule filterProps withOrigin rule =
     (let selector = map_option (join '', '') (rule_selectors rule);
          properties = cssPropertiesToObject
            (case rule_cssProperties rule of None \<Rightarrow> [] | Some ps \<Rightarrow> ps) filterProps
      in if length properties = 0 then None
         else Some \<lparr>mr_selector = selector,
                    mr_origin = (if withOrigin then Some (rule_origin rule) else None),
                    mr_properties = properties\<rparr>)"

definition filter_Boolean :: "'a option list \<Rightarrow> 'a list" where
  \<comment> \<open>\<^verbatim>\<open>.filter(Boolean)\<close> on a list of objects and \<^verbatim>\<open>null\<close>s.\<close>
  "filter_Boolean xs = map the (filter (\<lambda>x. x \<noteq> None) xs)"

definition format_inherited ::
  "string list option \<Rightarrow> nat \<times> css_rule list option \<Rightarrow> inherited_rules option" where
  "format_inherited filterProps entry =
     (case snd entry of
        None \<Rightarrow> None
      | Some matches \<Rightarrow>
          (let rules = filter_Boolean (map (format_rule filterProps False) matches)
           in if length rules = 0 then None
              else Some \<lparr>ih_ancestorLevel = fst entry + 1, ih_matchedRules = rules\<rparr>))"

definition getElementStyles :: "browser \<Rightarrow> tool_context \<Rightarrow> styles_params \<Rightarrow> styles_result io" where
  "getElementStyles br ctx params =
     bind_io (ensureDomEnabled br) (\<lambda>_.
     bind_io (ensureCssEnabled br) (\<lambda>_.
     case usable_backendNodeId (getAXNodeByUid ctx (st_uid params)) of
       None \<Rightarrow> throw (UnknownUid (st_uid params))
     | Some backendNodeId \<Rightarrow>
     bind_io (resolveToNodeId br backendNodeId) (\<lambda>nodeId.
     bind_io (if st_includeComputed params
              then bind_io (send (reply_getComputedStyle br) (CSS_getComputedStyleForNode nodeId))
                     (\<lambda>computedStyle.
                        let filterProps = (case st_properties params of
                                             None \<Rightarrow> defaultProperties | Some ps \<Rightarrow> ps)
                        in return_io (Some (styleMap_loop filterProps computedStyle [])))
              else return_io None) (\<lambda>computed.
     bind_io (send (reply_getMatchedStyles br) (CSS_getMatchedStylesForNode nodeId)) (\<lambda>matched.
     let inline' =
           (case ms_inlineStyle matched of
              None \<Rightarrow> None
            | Some cssProperties \<Rightarrow>
                (let inline = cssPropertiesToObject cssProperties (st_properties params)
                 in if length inline > 0 then Some inline else None));
         matchedRules' =
           (case ms_matchedCSSRules matched of
              None \<Rightarrow> None
            | Some matches \<Rightarrow>
                (let matchedRules =
                       filter_Boolean (map (format_rule (st_properties params) True) matches)
                 in if length matchedRules > 0 then Some matchedRules else None));
         inherited' =
           (if st_includeInherited params then
              (case ms_inherited matched of
                 None \<Rightarrow> None
               | Some inh \<Rightarrow>
                   (let inherited =
                          filter_Boolean (map (format_inherited (st_properties params))
                            (enumerate 0 inh))
                    in if length inherited > 0 then Some inherited else None))
            else None)
     in return_io
          \<lparr>sr_computed = computed, sr_inline = inline',
           sr_matchedRules = matchedRules', sr_inherited = inherited'\<rparr>)))))"

subsection \<open>\<^verbatim>\<open>query_selector\<close>, \<^verbatim>\<open>search_dom\<close> and \<^verbatim>\<open>get_element_at_position\<close>\<close>














subsection \<open>\<^verbatim>\<open>get_dom_tree\<close>\<close>

record tree_params =
  tp_uid :: "string option"
  tp_depth :: int

definition getDomTree :: "browser \<Rightarrow> tool_context \<Rightarrow> tree_params \<Rightarrow> tree_node option io" where
  \<comment> \<open>The 100 ms delay between the request for child nodes and the description is not
      modelled. An empty \<^verbatim>\<open>uid\<close> is falsy and selects the document root.\<close>
  "getDomTree br ctx params =
     bind_io (ensureDomEnabled br) (\<lambda>_.
     bind_io (case tp_uid params of
                Some uid \<Rightarrow>
                  if uid \<noteq> [] then
                    (case usable_backendNodeId (getAXNodeByUid ctx uid) of
                       None \<Rightarrow> throw (UnknownUid uid)
                     | Some backendNodeId \<Rightarrow> resolveToNodeId br backendNodeId)
                  else send (reply_getDocument br) (DOM_getDocument (tp_depth params) (Some True))
              | None \<Rightarrow>
                  send (reply_getDocument br) (DOM_getDocument (tp_depth params) (Some True)))
       (\<lambda>rootNodeId.
     bind_io (send (reply_void br) (DOM_requestChildNodes rootNodeId (tp_depth params) True)) (\<lambda>_.
     bind_io (send (reply_describeNode br)
                (DOM_describeNode rootNodeId (tp_depth params) (Some True))) (\<lambda>node.
     return_io (formatNode (tp_depth params) (Some node) 0)))))"





subsection \<open>\<^verbatim>\<open>capture_dom_snapshot\<close>\<close>

record snapshot_node =
  sn_index :: nat
  sn_name :: string
  sn_attributes :: "string obj"
  sn_bounds :: "rect option"

record snapshot_document_out =
  sd_documentIndex :: nat
  sd_url :: string
  sd_nodeCount :: nat
  sd_nodes :: "snapshot_node list"

record snapshot_result =
  res_documentCount :: nat
  res_documents :: "snapshot_document_out list"
  res_note :: "string option"

definition defaultStyles :: "string list" where
  "defaultStyles =
     [''display'', ''visibility'', ''opacity'', ''color'', ''background-color'', ''font-family'',
      ''font-size'', ''font-weight'', ''width'', ''height'', ''position'', ''top'', ''right'',
      ''bottom'', ''left'', ''margin-top'', ''margin-right'', ''margin-bottom'', ''margin-left'',
      ''padding-top'', ''padding-right'', ''padding-bottom'', ''padding-left'', ''border-width'',
      ''flex-direction'', ''justify-content'', ''align-items'']"

definition truthy_string :: "string option \<Rightarrow> bool" where
  "truthy_string v \<longleftrightarrow> (case v of None \<Rightarrow> False | Some s \<Rightarrow> s \<noteq> [])"

fun snapshot_attrs_loop :: "string list \<Rightarrow> int list \<Rightarrow> string obj \<Rightarrow> string obj" where
  \<comment> \<open>\<^verbatim>\<open>for (let j = 0; j < attrPairs.length; j += 2)\<close>; on an odd-length array the last
      \<^verbatim>\<open>valIdx\<close> is \<^verbatim>\<open>undefined\<close> and the pair is skipped.\<close>
  "snapshot_attrs_loop strings [] attrs = attrs"
| "snapshot_attrs_loop strings [keyIdx] attrs = attrs"
| "snapshot_attrs_loop strings (keyIdx # valIdx # rest) attrs =
     (if truthy_string (elem_at_int strings keyIdx) \<and> truthy_string (elem_at_int strings valIdx)
      then snapshot_attrs_loop strings rest
             (obj_set attrs (the (elem_at_int strings keyIdx)) (the (elem_at_int strings valIdx)))
      else snapshot_attrs_loop strings rest attrs)"

definition snapshot_node_at ::
  "string list \<Rightarrow> snapshot_document \<Rightarrow> int list \<Rightarrow> nat \<Rightarrow> snapshot_node option" where
  \<comment> \<open>One iteration of the loop over \<^verbatim>\<open>nodeNames\<close>, for an index \<open>i\<close> below its length:
      \<^const>\<open>None\<close> is \<^verbatim>\<open>continue\<close>, \<^const>\<open>Some\<close> the node pushed.\<close>
  "snapshot_node_at strings doc nodeNames i =
     (let nameIdx = nodeNames ! i;
          name = or_empty (map_option toLowerCase (elem_at_int strings nameIdx))
      in if name = [] \<or> name = ''#text'' \<or> name = ''#comment'' then None
         else
           let attrPairs = (case doc_attributes doc of
                              None \<Rightarrow> []
                            | Some nodeAttrs \<Rightarrow>
                                (case elem_at nodeAttrs i of None \<Rightarrow> [] | Some ps \<Rightarrow> ps));
               attrs = snapshot_attrs_loop strings attrPairs [];
               bounds = (case doc_bounds doc of None \<Rightarrow> [] | Some b \<Rightarrow> b);
               nodeBounds = elem_at bounds i
           in Some \<lparr>sn_index = i, sn_name = name, sn_attributes = attrs,
                    sn_bounds = map_option
                      (\<lambda>b. \<lparr>rect_x = elem_at b 0, rect_y = elem_at b 1,
                             rect_width = elem_at b 2, rect_height = elem_at b 3\<rparr>) nodeBounds\<rparr>)"

definition format_document ::
  "string list \<Rightarrow> nat \<times> snapshot_document \<Rightarrow> snapshot_document_out option" where
  \<comment> \<open>The body of the loop over \<^verbatim>\<open>snapshot.documents\<close>: \<^const>\<open>None\<close> when the document has no
      node names and is skipped.\<close>
  "format_document strings entry =
     (case doc_nodeName (snd entry) of
        None \<Rightarrow> None
      | Some nodeNames \<Rightarrow>
          (let nodes = List.map_filter (snapshot_node_at strings (snd entry) nodeNames)
                         [0 ..< min (length nodeNames) 100]
           in Some \<lparr>sd_documentIndex = fst entry,
                    sd_url = or_empty (elem_at_int strings (doc_documentURL (snd entry))),
                    sd_nodeCount = length nodeNames,
                    sd_nodes = take 50 nodes\<rparr>))"

definition format_snapshot :: "snapshot \<Rightarrow> snapshot_result" where
  "format_snapshot snap =
     (let strings = snap_strings snap;
          docs = List.map_filter (format_document strings) (enumerate 0 (snap_documents snap))
      in \<lparr>res_documentCount = length docs,
          res_documents = docs,
          res_note = (case docs of
                    [] \<Rightarrow> None
                  | d # _ \<Rightarrow>
                      if sd_nodeCount d > 50
                      then Some ''Output limited to first 50 elements per document''
                      else None)\<rparr>)"

definition captureDomSnapshot :: "browser \<Rightarrow> string list option \<Rightarrow> snapshot_result io" where
  "captureDomSnapshot br computedStyles =
     bind_io (send (reply_void br) DOMSnapshot_enable) (\<lambda>_.
     bind_io (send (reply_captureSnapshot br)
                (DOMSnapshot_captureSnapshot
                   (case computedStyles of None \<Rightarrow> defaultStyles | Some cs \<Rightarrow> cs) True True))
       (\<lambda>snap. return_io (format_snapshot snap)))"

definition element_nodes :: "string list \<Rightarrow> snapshot_document \<Rightarrow> snapshot_node list" where
  \<comment> \<open>All the element nodes of a document, as the handler would format them without a bound.\<close>
  "element_nodes strings doc =
     (case doc_nodeName doc of
        None \<Rightarrow> []
      | Some nodeNames \<Rightarrow>
          List.map_filter (snapshot_node_at strings doc nodeNames) [0 ..< length nodeNames])"

definition truncated :: "string list \<Rightarrow> nat \<times> snapshot_document \<Rightarrow> bool" where
  \<comment> \<open>An emitted document is truncated when fewer nodes are emitted than it has elements.\<close>
  "truncated strings entry \<longleftrightarrow>
     (case format_document strings entry of
        None \<Rightarrow> False
      | Some out \<Rightarrow> length (sd_nodes out) < length (element_nodes strings (snd entry)))"

subsection \<open>\<^verbatim>\<open>compare_elements\<close>\<close>

record compare_params =
  cmp_uid1 :: string
  cmp_uid2 :: string
  cmp_properties :: "string list option"

record compare_result =
  cr_element1 :: string
  cr_element2 :: string
  cr_differenceCount :: nat
  cr_differences :: "difference obj"
  cr_sameProperties :: "string list"

definition promise_all2 :: "'a io \<Rightarrow> 'b io \<Rightarrow> ('a \<times> 'b) io" where
  \<comment> \<open>\<^verbatim>\<open>await Promise.all([m1, m2])\<close> for two sends: both commands are issued, in order; the
      first failure in that order is the one reported.\<close>
  "promise_all2 m1 m2 s =
     (case m1 s of (r1, s1) \<Rightarrow>
        (case m2 s1 of (r2, s2) \<Rightarrow>
           ((case r1 of
               Inl e \<Rightarrow> Inl e
             | Inr a \<Rightarrow> (case r2 of Inl e \<Rightarrow> Inl e | Inr b \<Rightarrow> Inr (a, b))), s2)))"

definition compareElements :: "browser \<Rightarrow> tool_context \<Rightarrow> compare_params \<Rightarrow> compare_result io" where
  "compareElements br ctx params =
     bind_io (ensureDomEnabled br) (\<lambda>_.
     bind_io (ensureCssEnabled br) (\<lambda>_.
     let axNode1 = getAXNodeByUid ctx (cmp_uid1 params);
         axNode2 = getAXNodeByUid ctx (cmp_uid2 params)
     in
     case usable_backendNodeId axNode1 of
       None \<Rightarrow> throw (UnknownUid (cmp_uid1 params))
     | Some backendNodeId1 \<Rightarrow>
     case usable_backendNodeId axNode2 of
       None \<Rightarrow> throw (UnknownUid (cmp_uid2 params))
     | Some backendNodeId2 \<Rightarrow>
     bind_io (resolveToNodeId br backendNodeId1) (\<lambda>nodeId1.
     bind_io (resolveToNodeId br backendNodeId2) (\<lambda>nodeId2.
     let propsToCompare = (case cmp_properties params of None \<Rightarrow> defaultProps | Some ps \<Rightarrow> ps)
     in
     bind_io (promise_all2
                (send (reply_getComputedStyle br) (CSS_getComputedStyleForNode nodeId1))
                (send (reply_getComputedStyle br) (CSS_getComputedStyleForNode nodeId2)))
       (\<lambda>(styles1, styles2).
     let (differences, same) = compare_styles propsToCompare styles1 styles2
     in return_io
          \<lparr>cr_element1 = cmp_uid1 params,
           cr_element2 = cmp_uid2 params,
           cr_differenceCount = length differences,
           cr_differences = differences,
           cr_sameProperties = same\<rparr>)))))"

subsection \<open>\<^verbatim>\<open>get_element_box_model\<close>\<close>

record box_model_result =
  bx_uid :: string
  bx_content :: rect
  bx_padding :: rect
  bx_border :: rect
  bx_margin :: rect
  bx_width :: int
  bx_height :: int
  bx_quads :: "real list list option"

definition getElementBoxModel :: "browser \<Rightarrow> tool_context \<Rightarrow> string \<Rightarrow> box_model_result io" where
  "getElementBoxModel br ctx uid =
     bind_io (ensureDomEnabled br) (\<lambda>_.
     case usable_backendNodeId (getAXNodeByUid ctx uid) of
       None \<Rightarrow> throw (UnknownUid uid)
     | Some backendNodeId \<Rightarrow>
     bind_io (resolveToNodeId br backendNodeId) (\<lambda>nodeId.
     bind_io (send (reply_getBoxModel br) (DOM_getBoxModel nodeId)) (\<lambda>model.
     bind_io (try_catch
                (bind_io (send (reply_getContentQuads br) (DOM_getContentQuads nodeId))
                   (\<lambda>quads. return_io (Some quads)))
                (return_io None)) (\<lambda>quads.
     return_io
       \<lparr>bx_uid = uid,
        bx_content = formatQuad (bm_content model),
        bx_padding = formatQuad (bm_padding model),
        bx_border = formatQuad (bm_border model),
        bx_margin = formatQuad (bm_margin model),
        bx_width = bm_width model,
        bx_height = bm_height model,
        bx_quads = quads\<rparr>))))"

subsection \<open>\<^verbatim>\<open>highlight_element\<close>, \<^verbatim>\<open>show_layout_overlay\<close> and \<^verbatim>\<open>force_element_state\<close>\<close>

record highlight_params =
  hp_uid :: string
  hp_duration :: int

definition highlightElement :: "browser \<Rightarrow> tool_context \<Rightarrow> highlight_params \<Rightarrow> bool io" where
  \<comment> \<open>The result tells whether the handler has scheduled the timer that hides the highlight;
      the timer fires after the handler has returned and is not modelled further.\<close>
  "highlightElement br ctx params =
     bind_io (ensureDomEnabled br) (\<lambda>_.
     bind_io (ensureOverlayEnabled br) (\<lambda>_.
     case usable_backendNodeId (getAXNodeByUid ctx (hp_uid params)) of
       None \<Rightarrow> throw (UnknownUid (hp_uid params))
     | Some backendNodeId \<Rightarrow>
     bind_io (send (reply_void br) (Overlay_highlightNode backendNodeId)) (\<lambda>_.
     return_io (hp_duration params > 0))))"

datatype layout_type = Grid | Flex

record layout_params =
  lo_uid :: string
  lo_type :: layout_type

definition showLayoutOverlay :: "browser \<Rightarrow> tool_context \<Rightarrow> layout_params \<Rightarrow> string io" where
  "showLayoutOverlay br ctx params =
     bind_io (ensureDomEnabled br) (\<lambda>_.
     bind_io (ensureOverlayEnabled br) (\<lambda>_.
     case usable_backendNodeId (getAXNodeByUid ctx (lo_uid params)) of
       None \<Rightarrow> throw (UnknownUid (lo_uid params))
     | Some backendNodeId \<Rightarrow>
     bind_io (resolveToNodeId br backendNodeId) (\<lambda>nodeId.
     if lo_type params = Grid
     then bind_io (send (reply_void br) (Overlay_setShowGridOverlays nodeId)) (\<lambda>_.
          return_io (''Grid overlay shown. Call hide_highlight or show_layout_overlay '' @
                     ''with empty configs to hide.''))
     else bind_io (send (reply_void br) (Overlay_setShowFlexOverlays nodeId)) (\<lambda>_.
          return_io ''Flexbox overlay shown. Call hide_highlight to hide.''))))"

record state_params =
  fs_uid :: string
  fs_states :: "string list"

definition forceElementState :: "browser \<Rightarrow> tool_context \<Rightarrow> state_params \<Rightarrow> unit io" where
  "forceElementState br ctx params =
     bind_io (ensureDomEnabled br) (\<lambda>_.
     bind_io (ensureCssEnabled br) (\<lambda>_.
     case usable_backendNodeId (getAXNodeByUid ctx (fs_uid params)) of
       None \<Rightarrow> throw (UnknownUid (fs_uid params))
     | Some backendNodeId \<Rightarrow>
     bind_io (resolveToNodeId br backendNodeId) (\<lambda>nodeId.
     bind_io (send (reply_void br) (CSS_forcePseudoState nodeId (fs_states params))) (\<lambda>_.
     return_io ()))))"

subsection \<open>\<^verbatim>\<open>get_element_event_listeners\<close>\<close>

record listener_out =
  li_type :: string
  li_useCapture :: bool
  li_passive :: bool
  li_once :: bool
  li_handler :: string
  li_scriptId :: string
  li_lineNumber :: int
  li_columnNumber :: int

record listeners_result =
  lr_uid :: string
  lr_listenerCount :: nat
  lr_listeners :: "listener_out list"

definition format_listener :: "event_listener \<Rightarrow> listener_out" where
  "format_listener listener =
     \<lparr>li_type = ls_type listener,
      li_useCapture = ls_useCapture listener,
      li_passive = ls_passive listener,
      li_once = ls_once listener,
      li_handler = (case map_option (take 200) (ls_handler_description listener) of
                      None \<Rightarrow> ''unknown''
                    | Some d \<Rightarrow> if d = [] then ''unknown'' else d),
      li_scriptId = ls_scriptId listener,
      li_lineNumber = ls_lineNumber listener,
      li_columnNumber = ls_columnNumber listener\<rparr>"

definition getElementEventListeners ::
  "browser \<Rightarrow> tool_context \<Rightarrow> string \<Rightarrow> listeners_result io" where
  "getElementEventListeners br ctx uid =
     bind_io (ensureDomEnabled br) (\<lambda>_.
     case usable_backendNodeId (getAXNodeByUid ctx uid) of
       None \<Rightarrow> throw (UnknownUid uid)
     | Some backendNodeId \<Rightarrow>
     bind_io (resolveToNodeId br backendNodeId) (\<lambda>nodeId.
     bind_io (send (reply_resolveNode br) (DOM_resolveNode nodeId)) (\<lambda>objectId.
     bind_io (send (reply_getEventListeners br)
                (DOMDebugger_getEventListeners objectId 1 True)) (\<lambda>listeners.
     bind_io (if truthy_string objectId
              then send (reply_void br) (Runtime_releaseObject (the objectId))
              else return_io ()) (\<lambda>_.
     let formattedListeners = map format_listener listeners in
     return_io
       \<lparr>lr_uid = uid,
        lr_listenerCount = length formattedListeners,
        lr_listeners = formattedListeners\<rparr>)))))"

subsection \<open>\<^verbatim>\<open>get_fonts_info\<close> and \<^verbatim>\<open>get_css_variables\<close>\<close>

record fonts_result =
  fr_uid :: string
  fr_fontFamily :: "string option"
  fr_fontSize :: "string option"
  fr_fontWeight :: "string option"
  fr_platformFonts :: "platform_font list"

definition find_value :: "computed_property list \<Rightarrow> string \<Rightarrow> string option" where
  \<comment> \<open>\<^verbatim>\<open>computedStyle.find(p => p.name === name)?.value\<close>\<close>
  "find_value computedStyle name =
     map_option cp_value (find (\<lambda>p. cp_name p = name) computedStyle)"

definition getFontsInfo :: "browser \<Rightarrow> tool_context \<Rightarrow> string \<Rightarrow> fonts_result io" where
  "getFontsInfo br ctx uid =
     bind_io (ensureDomEnabled br) (\<lambda>_.
     bind_io (ensureCssEnabled br) (\<lambda>_.
     case usable_backendNodeId (getAXNodeByUid ctx uid) of
       None \<Rightarrow> throw (UnknownUid uid)
     | Some backendNodeId \<Rightarrow>
     bind_io (resolveToNodeId br backendNodeId) (\<lambda>nodeId.
     bind_io (send (reply_getPlatformFonts br) (CSS_getPlatformFontsForNode nodeId)) (\<lambda>fonts.
     bind_io (send (reply_getComputedStyle br) (CSS_getComputedStyleForNode nodeId))
       (\<lambda>computedStyle.
     return_io
       \<lparr>fr_uid = uid,
        fr_fontFamily = find_value computedStyle ''font-family'',
        fr_fontSize = find_value computedStyle ''font-size'',
        fr_fontWeight = find_value computedStyle ''font-weight'',
        fr_platformFonts =
          map (\<lambda>f. \<lparr>pf_familyName = pf_familyName f, pf_postScriptName = pf_postScriptName f,
                    pf_glyphCount = pf_glyphCount f, pf_isCustomFont = pf_isCustomFont f\<rparr>)
            fonts\<rparr>)))))"

record variable_definition =
  vd_variable :: string
  vd_value :: string
  vd_selector :: string

record variables_result =
  vr_uid :: string
  vr_variableCount :: nat
  vr_computedVariables :: "string obj"
  vr_definitions :: "variable_definition list"

definition startsWith :: "string \<Rightarrow> string \<Rightarrow> bool" where
  "startsWith s prefix \<longleftrightarrow> take (length prefix) s = prefix"

fun cssVariables_loop :: "computed_property list \<Rightarrow> string obj \<Rightarrow> string obj" where
  "cssVariables_loop [] cssVariables = cssVariables"
| "cssVariables_loop (prop # rest) cssVariables =
     (if startsWith (cp_name prop) ''--''
      then cssVariables_loop rest (obj_set cssVariables (cp_name prop) (cp_value prop))
      else cssVariables_loop rest cssVariables)"

definition rule_variable_definitions :: "css_rule \<Rightarrow> variable_definition list" where
  \<comment> \<open>The definitions that one matched rule contributes, in order.\<close>
  "rule_variable_definitions rule =
     (let selector = map_option (join '', '') (rule_selectors rule)
      in map (\<lambda>prop. \<lparr>vd_variable = prop_name prop,
                       vd_value = prop_value prop,
                       vd_selector = (case selector of
                                        None \<Rightarrow> ''unknown''
                                      | Some t \<Rightarrow> if t = [] then ''unknown'' else t)\<rparr>)
           (filter (\<lambda>prop. startsWith (prop_name prop) ''--'' \<and> prop_disabled prop \<noteq> Some True)
              (case rule_cssProperties rule of None \<Rightarrow> [] | Some ps \<Rightarrow> ps)))"

definition getCssVariables :: "browser \<Rightarrow> tool_context \<Rightarrow> string \<Rightarrow> variables_result io" where
  "getCssVariables br ctx uid =
     bind_io (ensureDomEnabled br) (\<lambda>_.
     bind_io (ensureCssEnabled br) (\<lambda>_.
     case usable_backendNodeId (getAXNodeByUid ctx uid) of
       None \<Rightarrow> throw (UnknownUid uid)
     | Some backendNodeId \<Rightarrow>
     bind_io (resolveToNodeId br backendNodeId) (\<lambda>nodeId.
     bind_io (send (reply_getComputedStyle br) (CSS_getComputedStyleForNode nodeId))
       (\<lambda>computedStyle.
     let cssVariables = cssVariables_loop computedStyle [] in
     bind_io (send (reply_getMatchedStyles br) (CSS_getMatchedStylesForNode nodeId)) (\<lambda>matched.
     let variableDefinitions =
           (case ms_matchedCSSRules matched of
              None \<Rightarrow> []
            | Some matches \<Rightarrow> concat (map rule_variable_definitions matches))
     in return_io
          \<lparr>vr_uid = uid,
           vr_variableCount = length cssVariables,
           vr_computedVariables = cssVariables,
           vr_definitions = variableDefinitions\<rparr>)))))"

subsection \<open>\<^verbatim>\<open>get_accessibility_info\<close>\<close>

record accessibility_params =
  ap_uid :: string
  ap_includeAncestors :: bool

record ax_node_out =
  ao_nodeId :: string
  ao_role :: "string option"
  ao_name :: "string option"
  ao_description :: "string option"
  ao_value :: "string option"
  ao_properties :: "ax_property list option"
  ao_childIds :: "string list option"
  ao_ignored :: bool
  ao_ignoredReasons :: "ax_property list option"

definition optional_value :: "string option option \<Rightarrow> string option" where
  \<comment> \<open>\<^verbatim>\<open>node.role?.value\<close>\<close>
  "optional_value v = (case v of None \<Rightarrow> None | Some w \<Rightarrow> w)"

definition format_ax_node :: "ax_tree_node \<Rightarrow> ax_node_out" where
  "format_ax_node node =
     \<lparr>ao_nodeId = axn_nodeId node,
      ao_role = optional_value (axn_role node),
      ao_name = optional_value (axn_name node),
      ao_description = optional_value (axn_description node),
      ao_value = optional_value (axn_value node),
      ao_properties =
        map_option (map (\<lambda>p. \<lparr>axp_name = axp_name p, axp_value = axp_value p\<rparr>))
          (axn_properties node),
      ao_childIds = axn_childIds node,
      ao_ignored = axn_ignored node,
      ao_ignoredReasons =
        map_option (map (\<lambda>r. \<lparr>axp_name = axp_name r, axp_value = axp_value r\<rparr>))
          (axn_ignoredReasons node)\<rparr>"

definition getAccessibilityInfo ::
  "browser \<Rightarrow> tool_context \<Rightarrow> accessibility_params \<Rightarrow> (string \<times> ax_node_out list) io" where
  "getAccessibilityInfo br ctx params =
     bind_io (ensureDomEnabled br) (\<lambda>_.
     bind_io (send (reply_void br) Accessibility_enable) (\<lambda>_.
     case usable_backendNodeId (getAXNodeByUid ctx (ap_uid params)) of
       None \<Rightarrow> throw (UnknownUid (ap_uid params))
     | Some backendNodeId \<Rightarrow>
     bind_io (if ap_includeAncestors params
              then send (reply_getAXNodes br) (Accessibility_getAXNodeAndAncestors backendNodeId)
              else send (reply_getAXNodes br)
                     (Accessibility_getPartialAXTree backendNodeId False)) (\<lambda>nodes.
     return_io (ap_uid params, map format_ax_node nodes))))"

section \<open>A browser showing a static page\<close>

text \<open>
  What a tool reports for the elements of a page is stated for a browser whose replies are
  determined by a page that does not change while the tool runs. An element of the page has
  a node name, its attributes as pairs of name and value, and a computed style; it is found
  under its node id, which here is its backend node id as well and is not 0. The page also
  says which nodes a selector matches, which nodes a text search finds (in document order),
  and which node lies at a position. Commands that the page does not answer get the reply of
  \<^const>\<open>idle_browser\<close>.
\<close>

record page_node =
  pn_nodeName :: string
  pn_attributes :: "(string \<times> string) list"
  pn_computedStyle :: "computed_property list"

record page =
  pg_nodes :: "(int \<times> page_node) list"
  pg_selected :: "string \<Rightarrow> int list"
  pg_found :: "string \<Rightarrow> int list"
  pg_at :: "int \<Rightarrow> int \<Rightarrow> int option"

definition flat_attributes :: "(string \<times> string) list \<Rightarrow> string list" where
  \<comment> \<open>The protocol's flat array \<^verbatim>\<open>[name1, value1, name2, value2, ...]\<close>.\<close>
  "flat_attributes attrs = concat (map (\<lambda>(k, v). [k, v]) attrs)"

definition no_such_node :: error where
  "no_such_node = ProtocolError ''Could not find node with given id''"

definition wrong_command :: error where
  "wrong_command = ProtocolError ''Invalid parameters''"

definition on_node :: "page \<Rightarrow> int \<Rightarrow> (page_node \<Rightarrow> 'a) \<Rightarrow> error + 'a" where
  "on_node pg n f = (case map_of (pg_nodes pg) n of None \<Rightarrow> Inl no_such_node | Some nd \<Rightarrow> Inr (f nd))"

definition page_browser :: "page \<Rightarrow> browser" where
  "page_browser pg =
     idle_browser
       \<lparr>reply_pushNodes := (\<lambda>s c. case c of
            DOM_pushNodesByBackendIdsToFrontend bs \<Rightarrow>
              Inr (Some (map (\<lambda>b. if map_of (pg_nodes pg) b = None then 0 else b) bs))
          | _ \<Rightarrow> Inl wrong_command),
        reply_describeNode := (\<lambda>s c. case c of
            DOM_describeNode n d p \<Rightarrow>
              on_node pg n (\<lambda>nd. Node (pn_nodeName nd) 1 n (Some 0)
                                   (Some (flat_attributes (pn_attributes nd))) None)
          | _ \<Rightarrow> Inl wrong_command),
        reply_getAttributes := (\<lambda>s c. case c of
            DOM_getAttributes n \<Rightarrow> on_node pg n (\<lambda>nd. flat_attributes (pn_attributes nd))
          | _ \<Rightarrow> Inl wrong_command),
        reply_querySelector := (\<lambda>s c. case c of
            DOM_querySelector r sel \<Rightarrow> Inr (case pg_selected pg sel of [] \<Rightarrow> 0 | n # _ \<Rightarrow> n)
          | _ \<Rightarrow> Inl wrong_command),
        reply_querySelectorAll := (\<lambda>s c. case c of
            DOM_querySelectorAll r sel \<Rightarrow> Inr (pg_selected pg sel)
          | _ \<Rightarrow> Inl wrong_command),
        reply_performSearch := (\<lambda>s c. case c of
            DOM_performSearch q shadow \<Rightarrow> Inr (q, int (length (pg_found pg q)))
          | _ \<Rightarrow> Inl wrong_command),
        reply_getSearchResults := (\<lambda>s c. case c of
            DOM_getSearchResults q fromIndex toIndex \<Rightarrow>
              Inr (drop (nat fromIndex) (take (nat toIndex) (pg_found pg q)))
          | _ \<Rightarrow> Inl wrong_command),
        reply_getNodeForLocation := (\<lambda>s c. case c of
            DOM_getNodeForLocation x y shadow ignore \<Rightarrow>
              (case pg_at pg x y of
                 None \<Rightarrow> Inl (ProtocolError ''No node found at given location'')
               | Some b \<Rightarrow> Inr \<lparr>loc_backendNodeId = b, loc_nodeId = None, loc_frameId = ''main''\<rparr>)
          | _ \<Rightarrow> Inl wrong_command),
        reply_getComputedStyle := (\<lambda>s c. case c of
            CSS_getComputedStyleForNode n \<Rightarrow> on_node pg n pn_computedStyle
          | _ \<Rightarrow> Inl wrong_command)\<rparr>"

definition uid_context :: "(string \<times> int) list \<Rightarrow> tool_context" where
  \<comment> \<open>A lookup that knows the backend node ids of the listed UIDs.\<close>
  "uid_context uids =
     \<lparr>getAXNodeByUid = (\<lambda>uid. map_option (\<lambda>b. \<lparr>ax_backendNodeId = Some b\<rparr>) (map_of uids uid))\<rparr>"







definition node_ids :: "int list \<Rightarrow> bool" where
  \<comment> \<open>The node ids of the protocol (\<^verbatim>\<open>DOM.NodeId\<close>) are not negative; 0 stands for no node.\<close>
  "node_ids ids \<longleftrightarrow> list_all (\<lambda>i. 0 \<le> i) ids"

definition sample_page :: page where
  \<comment> \<open>A page for examples: \<^verbatim>\<open><div id="" class="a">\<close> (node 5), \<^verbatim>\<open><div class="a">\<close> (node 6) and
      \<^verbatim>\<open><span id="x" class="">\<close> (node 7); the selector \<^verbatim>\<open>.a\<close> matches the first two, a search for
      \<^verbatim>\<open>x\<close> finds the third, and the first lies at the position (10, 20).\<close>
  "sample_page =
     \<lparr>pg_nodes =
        [(5, \<lparr>pn_nodeName = ''DIV'', pn_attributes = [(''id'', []), (''class'', ''a'')],
              pn_computedStyle = [\<lparr>cp_name = ''color'', cp_value = ''red''\<rparr>]\<rparr>),
         (6, \<lparr>pn_nodeName = ''DIV'', pn_attributes = [(''class'', ''a'')],
              pn_computedStyle = [\<lparr>cp_name = ''color'', cp_value = ''blue''\<rparr>]\<rparr>),
         (7, \<lparr>pn_nodeName = ''SPAN'', pn_attributes = [(''id'', ''x''), (''class'', [])],
              pn_computedStyle = []\<rparr>)],
      pg_selected = (\<lambda>sel. if sel = ''.a'' then [5, 6] else []),
      pg_found = (\<lambda>q. if q = ''x'' then [7] else []),
      pg_at = (\<lambda>x y. if x = 10 \<and> y = 20 then Some 5 else None)\<rparr>"

definition sample_context :: tool_context where
  \<comment> \<open>The UIDs of the three elements of \<^const>\<open>sample_page\<close>.\<close>
  "sample_context = uid_context [(''1_5'', 5), (''1_6'', 6), (''1_7'', 7)]"



section \<open>Notions used by the statements\<close>

definition enable_prelude :: "browser \<Rightarrow> command option \<Rightarrow> unit io" where
  \<comment> \<open>The statements with which a handler that takes a UID begins: \<^const>\<open>ensureDomEnabled\<close>,
      then for some handlers the enabling of one more domain.\<close>
  "enable_prelude br extra =
     bind_io (ensureDomEnabled br)
       (\<lambda>_. case extra of None \<Rightarrow> return_io () | Some c \<Rightarrow> send (reply_void br) c)"

definition enabling_only :: "command list \<Rightarrow> session \<Rightarrow> session \<Rightarrow> bool" where
  \<comment> \<open>Between the sessions \<open>s\<close> and \<open>s'\<close>, \<^verbatim>\<open>DOM.enable\<close> was sent, followed only by commands
      of the list \<open>allowed\<close>.\<close>
  "enabling_only allowed s s' \<longleftrightarrow>
     take (length s) s' = s \<and>
     (case drop (length s) s' of
        [] \<Rightarrow> False
      | c # sent \<Rightarrow> c = DOM_enable \<and> set sent \<subseteq> set allowed)"

definition enables_then_fails ::
  "browser \<Rightarrow> command option \<Rightarrow> string \<Rightarrow> session \<Rightarrow> (error + 'a) \<times> session \<Rightarrow> bool" where
  \<comment> \<open>The outcome \<open>out\<close> of a handler started in session \<open>s\<close>: it failed, with the error of
      the enabling commands if one of them failed and with the unknown-UID error otherwise;
      it sent \<^verbatim>\<open>DOM.enable\<close> and then nothing but \<^verbatim>\<open>DOM.getDocument\<close> with depth 0 and the extra
      enabling command; and when the enabling commands succeeded, all of them were sent.\<close>
  "enables_then_fails br extra uid s out \<longleftrightarrow>
     fst out = (case fst (enable_prelude br extra s) of
                  Inl e \<Rightarrow> Inl e
                | Inr u \<Rightarrow> Inl (UnknownUid uid))
     \<and> enabling_only (DOM_getDocument 0 None # (case extra of None \<Rightarrow> [] | Some c \<Rightarrow> [c]))
          s (snd out)
     \<and> (fst (enable_prelude br extra s) = Inr () \<longrightarrow>
          snd out = s @ DOM_enable # DOM_getDocument 0 None #
                      (case extra of None \<Rightarrow> [] | Some c \<Rightarrow> [c]))"

definition two_documents :: snapshot where
  \<comment> \<open>A snapshot for examples: a document with one element and a frame with 51.\<close>
  "two_documents =
     \<lparr>snap_documents =
        [\<lparr>doc_documentURL = 2, doc_nodeName = Some [0],
          doc_attributes = None, doc_bounds = None\<rparr>,
         \<lparr>doc_documentURL = 3, doc_nodeName = Some (replicate 51 1),
          doc_attributes = None, doc_bounds = None\<rparr>],
      snap_strings = [''HTML'', ''DIV'', ''https://a.test/'', ''https://a.test/frame'']\<rparr>"

section \<open>Properties of the quad formatter\<close>

lemma Math_min_set:
  "Math_min (Some a) (Some b) (Some c) (Some d) = Some (Min {a, b, c, d})"
  by (simp add: Math_min_def)

lemma Math_max_set:
  "Math_max (Some a) (Some b) (Some c) (Some d) = Some (Max {a, b, c, d})"
  by (simp add: Math_max_def)

lemma formatQuad_corners:
  "formatQuad (quad_of_corners [p0, p1, p2, p3]) =
     (let xs = fst ` set [p0, p1, p2, p3]; ys = snd ` set [p0, p1, p2, p3]
      in \<lparr>rect_x = Some (Min xs), rect_y = Some (Min ys),
          rect_width = Some (Max xs - Min xs), rect_height = Some (Max ys - Min ys)\<rparr>)"
proof -
  obtain a0 b0 a1 b1 a2 b2 a3 b3
    where p: "p0 = (a0, b0)" "p1 = (a1, b1)" "p2 = (a2, b2)" "p3 = (a3, b3)"
    by (metis surj_pair)
  have q: "quad_of_corners [p0, p1, p2, p3] = [a0, b0, a1, b1, a2, b2, a3, b3]"
    by (simp add: quad_of_corners_def p)
  show ?thesis
    unfolding q formatQuad_def
    by (simp add: elem_at_def Math_min_set Math_max_set minus_number_def p Let_def)
qed

lemma four_corners:
  assumes "length ps = 4"
  obtains p0 p1 p2 p3 where "ps = [p0, p1, p2, p3]"
proof -
  from assms obtain p0 r0 where "ps = p0 # r0" "length r0 = 3"
    by (cases ps) auto
  moreover then obtain p1 r1 where "r0 = p1 # r1" "length r1 = 2"
    by (cases r0) auto
  moreover then obtain p2 r2 where "r1 = p2 # r2" "length r2 = 1"
    by (cases r1) auto
  moreover then obtain p3 where "r2 = [p3]"
    by (cases r2) auto
  ultimately show ?thesis using that by simp
qed

text \<open>
  C9. \<^const>\<open>formatQuad\<close> is a pure function of its argument, and its result does not depend on
  the order of the four corners: any permutation of the same four corner points gives the
  same bounding rectangle.
\<close>

theorem formatQuad_corner_order:
  assumes "length ps = 4" and "mset ps' = mset ps"
  shows "formatQuad (quad_of_corners ps') = formatQuad (quad_of_corners ps)"
proof -
  from assms have len: "length ps' = 4"
    by (metis size_mset)
  from assms(2) have set_eq: "set ps' = set ps"
    by (rule mset_eq_setD)
  from assms(1) obtain p0 p1 p2 p3 where ps: "ps = [p0, p1, p2, p3]"
    by (rule four_corners)
  from len obtain q0 q1 q2 q3 where ps': "ps' = [q0, q1, q2, q3]"
    by (rule four_corners)
  have "formatQuad (quad_of_corners [q0, q1, q2, q3]) =
        formatQuad (quad_of_corners [p0, p1, p2, p3])"
    unfolding formatQuad_corners using set_eq unfolding ps ps' by (simp only: Let_def)
  then show ?thesis by (simp only: ps ps')
qed

theorem formatQuad_corner_order_witness:
  "formatQuad [10, 20, 10, 50, 40, 50, 40, 20] = formatQuad [40, 50, 10, 20, 40, 20, 10, 50]
   \<and> formatQuad [10, 20, 10, 50, 40, 50, 40, 20] =
       \<lparr>rect_x = Some 10, rect_y = Some 20, rect_width = Some 30, rect_height = Some 30\<rparr>"
proof -
  have "formatQuad (quad_of_corners [(40, 50), (10, 20), (40, 20), (10, 50)]) =
        formatQuad (quad_of_corners [(10, 20), (10, 50), (40, 50), (40, 20)])"
    by (rule formatQuad_corner_order) simp_all
  moreover have "formatQuad [10, 20, 10, 50, 40, 50, 40, 20] =
       \<lparr>rect_x = Some 10, rect_y = Some 20, rect_width = Some 30, rect_height = Some 30\<rparr>"
    by (simp add: formatQuad_def elem_at_def Math_min_def Math_max_def minus_number_def)
  ultimately show ?thesis by (simp add: quad_of_corners_def)
qed

section \<open>Properties of the style property projector\<close>

lemma update_entry:
  "(k', v') \<in> set (AList.update k v al) \<Longrightarrow> (k', v') = (k, v) \<or> (k', v') \<in> set al"
  by (induction al) (auto split: if_splits)

lemma loop_step:
  "cssPropertiesToObject_loop (p # props) f acc =
     (if stored f p
      then cssPropertiesToObject_loop props f (AList.update (prop_name p) (prop_value p) acc)
      else cssPropertiesToObject_loop props f acc)"
  by (simp add: stored_def eligible_def passes_def obj_set_def split: option.splits)

lemma loop_map_of:
  "map_of (cssPropertiesToObject_loop props f acc) =
     map_of acc ++
     map_of (rev (map (\<lambda>p. (prop_name p, prop_value p))
                   (filter (\<lambda>p. stored f p) props)))"
proof (induction props arbitrary: acc)
  case Nil
  then show ?case by simp
next
  case (Cons p props)
  show ?case
    unfolding loop_step
    by (simp add: Cons.IH update_conv' map_add_def fun_eq_iff split: option.splits)
qed

lemma loop_keys:
  "fst ` set (cssPropertiesToObject_loop props f acc) =
     fst ` set acc \<union> prop_name ` {p \<in> set props. stored f p}"
proof (induction props arbitrary: acc)
  case Nil
  then show ?case by simp
next
  case (Cons p props)
  show ?case
  proof (cases "stored f p")
    case True
    then have step: "cssPropertiesToObject_loop (p # props) f acc =
        cssPropertiesToObject_loop props f (AList.update (prop_name p) (prop_value p) acc)"
      by (auto simp add: loop_step simp del: cssPropertiesToObject_loop.simps)
    have "fst ` set (cssPropertiesToObject_loop (p # props) f acc) =
        fst ` set (AList.update (prop_name p) (prop_value p) acc) \<union>
        prop_name ` {q \<in> set props. stored f q}"
      unfolding step by (rule Cons.IH)
    also have "\<dots> = fst ` set acc \<union>
        prop_name ` {q \<in> set (p # props). stored f q}"
      using True by (auto simp: dom_update)
    finally show ?thesis .
  next
    case False
    then have step: "cssPropertiesToObject_loop (p # props) f acc =
        cssPropertiesToObject_loop props f acc"
      by (auto simp add: loop_step simp del: cssPropertiesToObject_loop.simps)
    have "fst ` set (cssPropertiesToObject_loop (p # props) f acc) =
        fst ` set acc \<union> prop_name ` {q \<in> set props. stored f q}"
      unfolding step by (rule Cons.IH)
    also have "\<dots> = fst ` set acc \<union>
        prop_name ` {q \<in> set (p # props). stored f q}"
      using False by auto
    finally show ?thesis .
  qed
qed

lemma loop_entries:
  "(k, v) \<in> set (cssPropertiesToObject_loop props f acc) \<Longrightarrow>
     (k, v) \<in> set acc \<or>
     (\<exists>p \<in> set props. stored f p \<and> prop_name p = k \<and> prop_value p = v)"
proof (induction props arbitrary: acc)
  case Nil
  then show ?case by simp
next
  case (Cons p props)
  show ?case
  proof (cases "stored f p")
    case True
    then have step: "cssPropertiesToObject_loop (p # props) f acc =
        cssPropertiesToObject_loop props f (AList.update (prop_name p) (prop_value p) acc)"
      by (auto simp add: loop_step simp del: cssPropertiesToObject_loop.simps)
    from Cons.prems have "(k, v) \<in> set (cssPropertiesToObject_loop props f
        (AList.update (prop_name p) (prop_value p) acc))"
      unfolding step .
    from Cons.IH [OF this] True show ?thesis
      by (auto dest: update_entry)
  next
    case False
    then have step: "cssPropertiesToObject_loop (p # props) f acc =
        cssPropertiesToObject_loop props f acc"
      by (auto simp add: loop_step simp del: cssPropertiesToObject_loop.simps)
    from Cons.prems have "(k, v) \<in> set (cssPropertiesToObject_loop props f acc)"
      unfolding step .
    from Cons.IH [OF this] show ?thesis
      by auto
  qed
qed

lemma loop_distinct:
  "distinct (map fst acc) \<Longrightarrow> distinct (map fst (cssPropertiesToObject_loop props f acc))"
proof (induction props arbitrary: acc)
  case Nil
  then show ?case by simp
next
  case (Cons p props)
  then show ?case
    unfolding loop_step by (simp add: distinct_update)
qed

lemma cssPropertiesToObject_own_properties:
  "fst ` set (cssPropertiesToObject props (Some fs)) \<subseteq> set fs
   \<and> fst ` set (cssPropertiesToObject props None) =
       prop_name ` {p \<in> set props. eligible p \<and> prop_name p \<noteq> ''__proto__''}
   \<and> (\<forall>(k, v) \<in> set (cssPropertiesToObject props f).
         \<exists>p \<in> set props. eligible p \<and> prop_name p = k \<and> prop_value p = v)
   \<and> distinct (map fst (cssPropertiesToObject props f))
   \<and> map_of (cssPropertiesToObject props f) =
       map_of (rev (map (\<lambda>p. (prop_name p, prop_value p)) (filter (stored f) props)))"
proof (intro conjI)
  show "fst ` set (cssPropertiesToObject props (Some fs)) \<subseteq> set fs"
    by (auto simp: cssPropertiesToObject_def loop_keys stored_def passes_def)
  show "fst ` set (cssPropertiesToObject props None) =
       prop_name ` {p \<in> set props. eligible p \<and> prop_name p \<noteq> ''__proto__''}"
    by (simp add: cssPropertiesToObject_def loop_keys stored_def passes_def)
  show "\<forall>(k, v) \<in> set (cssPropertiesToObject props f).
         \<exists>p \<in> set props. eligible p \<and> prop_name p = k \<and> prop_value p = v"
    unfolding cssPropertiesToObject_def using loop_entries [of _ _ props f "[]"]
    by (fastforce simp: stored_def)
  show "distinct (map fst (cssPropertiesToObject props f))"
    by (simp add: cssPropertiesToObject_def loop_distinct)
  show "map_of (cssPropertiesToObject props f) =
       map_of (rev (map (\<lambda>p. (prop_name p, prop_value p)) (filter (stored f) props)))"
    by (simp add: cssPropertiesToObject_def loop_map_of)
qed

text \<open>
  C8. The result of \<^const>\<open>cssPropertiesToObject\<close> is built by assignments to a plain object, and
  an assignment to the key \<^verbatim>\<open>__proto__\<close> stores nothing. So with no filter the result is not
  exactly the non-disabled, non-empty-valued properties: a property named \<^verbatim>\<open>__proto__\<close> that is
  neither disabled nor empty-valued is missing from it. For every other name the statement
  holds (\<open>cssPropertiesToObject_own_properties\<close>): the keys lie in the filter list when one is
  given, they are the names of the non-disabled, non-empty-valued properties when none is,
  and every entry is the name and value of such a property.
\<close>

theorem cssPropertiesToObject_drops_proto:
  "eligible \<lparr>prop_name = ''__proto__'', prop_value = ''0'', prop_disabled = None\<rparr>
   \<and> cssPropertiesToObject
        [\<lparr>prop_name = ''color'', prop_value = ''red'', prop_disabled = None\<rparr>,
         \<lparr>prop_name = ''__proto__'', prop_value = ''0'', prop_disabled = None\<rparr>] None =
       [(''color'', ''red'')]"
  by (simp add: eligible_def cssPropertiesToObject_def obj_set_def)

section \<open>Properties of the comparator\<close>

lemma styleMap_loop_map_of:
  "map_of (styleMap_loop ps cs m) =
     map_of m ++ map_of (rev (filter (\<lambda>e. fst e \<in> set ps \<and> fst e \<noteq> ''__proto__'')
                                (map (\<lambda>c. (cp_name c, cp_value c)) cs)))"
proof (induction cs arbitrary: m)
  case Nil
  then show ?case by simp
next
  case (Cons c cs)
  show ?case
    by (simp add: Cons.IH obj_set_def update_conv' map_add_def fun_eq_iff split: option.splits)
qed

lemma map_of_filter_key:
  "map_of (filter (\<lambda>e. P (fst e)) xs) p = (if P p then map_of xs p else None)"
  by (induction xs) auto

lemma styleMap_value:
  assumes "p \<in> set ps" and "p \<noteq> ''__proto__''"
  shows "or_empty (map_of (styleMap_loop ps cs []) p) = computed_value cs p"
proof -
  let ?P = "\<lambda>k. k \<in> set ps \<and> k \<noteq> ''__proto__''"
  have "map_of (rev (filter (\<lambda>e. ?P (fst e)) (map (\<lambda>c. (cp_name c, cp_value c)) cs))) p
        = map_of (filter (\<lambda>e. ?P (fst e)) (rev (map (\<lambda>c. (cp_name c, cp_value c)) cs))) p"
    by (simp add: rev_filter)
  also have "\<dots> = map_of (rev (map (\<lambda>c. (cp_name c, cp_value c)) cs)) p"
    using assms by (simp add: map_of_filter_key [where P = ?P])
  finally show ?thesis
    by (simp add: styleMap_loop_map_of computed_value_def)
qed

lemma own_value:
  assumes "p \<notin> set Object_prototype"
  shows "or_empty_value (obj_get m p) = Str (or_empty (map_of m p))"
  using assms by (simp add: or_empty_value_def obj_get_def or_empty_def split: option.splits)

lemma compare_loop_differences_fun:
  "map_of (fst (compare_loop ps m1 m2 (D, S))) =
     (\<lambda>p. if p \<in> set ps \<and> p \<noteq> ''__proto__''
               \<and> or_empty_value (obj_get m1 p) \<noteq> or_empty_value (obj_get m2 p)
      then Some \<lparr>element1 = or_empty_value (obj_get m1 p),
                  element2 = or_empty_value (obj_get m2 p)\<rparr>
      else map_of D p)"
proof (induction ps arbitrary: D S)
  case Nil
  then show ?case by simp
next
  case (Cons q ps)
  show ?case
    by (auto simp add: Cons.IH obj_set_def update_conv' Let_def fun_eq_iff)
qed

lemma compare_loop_keys:
  "fst ` set (fst (compare_loop ps m1 m2 (D, S))) =
     fst ` set D \<union> {p \<in> set ps. p \<noteq> ''__proto__''
                      \<and> or_empty_value (obj_get m1 p) \<noteq> or_empty_value (obj_get m2 p)}"
proof (induction ps arbitrary: D S)
  case Nil
  then show ?case by simp
next
  case (Cons q ps)
  show ?case
    by (auto simp add: Cons.IH obj_set_def dom_update Let_def)
qed

lemma compare_loop_same:
  "snd (compare_loop ps m1 m2 (D, S)) =
     S @ filter (\<lambda>p. or_empty_value (obj_get m1 p) = or_empty_value (obj_get m2 p)
                     \<and> truthy_value (or_empty_value (obj_get m1 p))) ps"
proof (induction ps arbitrary: D S)
  case Nil
  then show ?case by simp
next
  case (Cons q ps)
  show ?case
    by (simp add: Cons.IH Let_def)
qed

lemma obj_set_map_swap:
  "obj_set (map (\<lambda>(p, e). (p, swap_difference e)) D) k (swap_difference d) =
     map (\<lambda>(p, e). (p, swap_difference e)) (obj_set D k d)"
  unfolding obj_set_def by (induction D) auto

lemma compare_loop_swap:
  "compare_loop ps m2 m1 (map (\<lambda>(p, e). (p, swap_difference e)) D, S) =
     (map (\<lambda>(p, e). (p, swap_difference e)) (fst (compare_loop ps m1 m2 (D, S))),
      snd (compare_loop ps m1 m2 (D, S)))"
proof (induction ps arbitrary: D S)
  case Nil
  then show ?case by simp
next
  case (Cons q ps)
  have sw: "\<lparr>element1 = or_empty_value (obj_get m2 q), element2 = or_empty_value (obj_get m1 q)\<rparr> =
            swap_difference
              \<lparr>element1 = or_empty_value (obj_get m1 q), element2 = or_empty_value (obj_get m2 q)\<rparr>"
    by (simp add: swap_difference_def)
  show ?case
    by (simp add: Cons.IH Let_def sw obj_set_map_swap del: difference.ext_inject)
qed

lemma compare_styles_own_properties:
  assumes "p \<in> set props" and "p \<notin> set Object_prototype"
  shows "map_of (fst (compare_styles props cs1 cs2)) p =
        (if computed_value cs1 p \<noteq> computed_value cs2 p
         then Some \<lparr>element1 = Str (computed_value cs1 p), element2 = Str (computed_value cs2 p)\<rparr>
         else None)"
    and "p \<in> set (snd (compare_styles props cs1 cs2)) \<longleftrightarrow>
           computed_value cs1 p = computed_value cs2 p \<and> computed_value cs1 p \<noteq> []"
proof -
  let ?m1 = "styleMap_loop props cs1 []" and ?m2 = "styleMap_loop props cs2 []"
  have cs: "compare_styles props cs1 cs2 = compare_loop props ?m1 ?m2 ([], [])"
    by (simp add: compare_styles_def)
  from assms(2) have np: "p \<noteq> ''__proto__''"
    by (auto simp: Object_prototype_def)
  have val: "or_empty_value (obj_get ?m1 p) = Str (computed_value cs1 p)"
            "or_empty_value (obj_get ?m2 p) = Str (computed_value cs2 p)"
    using assms np by (simp_all add: own_value styleMap_value)
  show "map_of (fst (compare_styles props cs1 cs2)) p =
        (if computed_value cs1 p \<noteq> computed_value cs2 p
         then Some \<lparr>element1 = Str (computed_value cs1 p), element2 = Str (computed_value cs2 p)\<rparr>
         else None)"
    unfolding cs compare_loop_differences_fun using assms(1) np by (simp add: val)
  show "p \<in> set (snd (compare_styles props cs1 cs2)) \<longleftrightarrow>
           computed_value cs1 p = computed_value cs2 p \<and> computed_value cs1 p \<noteq> []"
    unfolding cs compare_loop_same using assms(1) by (simp add: val truthy_value_def)
qed

lemma compare_styles_within_list:
  "fst ` set (fst (compare_styles props cs1 cs2)) \<subseteq> set props"
  "set (snd (compare_styles props cs1 cs2)) \<subseteq> set props"
  unfolding compare_styles_def Let_def compare_loop_keys compare_loop_same by auto

lemma compare_styles_symmetry:
  "fst (compare_styles props cs2 cs1) =
       map (\<lambda>(p, d). (p, swap_difference d)) (fst (compare_styles props cs1 cs2))"
  "fst ` set (fst (compare_styles props cs2 cs1)) = fst ` set (fst (compare_styles props cs1 cs2))"
  "snd (compare_styles props cs2 cs1) = snd (compare_styles props cs1 cs2)"
proof -
  let ?m1 = "styleMap_loop props cs1 []" and ?m2 = "styleMap_loop props cs2 []"
  have sw: "compare_styles props cs2 cs1 =
      (map (\<lambda>(p, d). (p, swap_difference d)) (fst (compare_styles props cs1 cs2)),
       snd (compare_styles props cs1 cs2))"
    using compare_loop_swap [of props ?m2 ?m1 "[]" "[]"] by (simp add: compare_styles_def)
  show E: "fst (compare_styles props cs2 cs1) =
       map (\<lambda>(p, d). (p, swap_difference d)) (fst (compare_styles props cs1 cs2))"
    by (simp add: sw)
  show "fst ` set (fst (compare_styles props cs2 cs1)) =
       fst ` set (fst (compare_styles props cs1 cs2))"
    unfolding E by (force simp: image_iff)
  show "snd (compare_styles props cs2 cs1) = snd (compare_styles props cs1 cs2)"
    by (simp add: sw)
qed

lemma compareElements_result:
  assumes "compareElements br ctx p s = (Inr r, s')"
  shows "\<exists>styles1 styles2.
     (cr_differences r, cr_sameProperties r) =
       compare_styles (case cmp_properties p of None \<Rightarrow> defaultProps | Some ps \<Rightarrow> ps)
         styles1 styles2
     \<and> cr_differenceCount r = length (cr_differences r)
     \<and> cr_element1 r = cmp_uid1 p \<and> cr_element2 r = cmp_uid2 p"
  using assms
  by (auto simp add: compareElements_def bind_io_def return_io_def throw_def Let_def
      promise_all2_def split: sum.splits prod.splits option.splits; metis)


text \<open>
  C6. The two style maps are plain objects, so a read of a property name that is no own
  property but names a member of \<^verbatim>\<open>Object.prototype\<close> gives that member, the same one for
  both elements and truthy. For the property list \<^verbatim>\<open>['constructor', 'color']\<close> and two elements
  whose computed styles have no entry named \<^verbatim>\<open>constructor\<close>, both values normalized to the empty
  string are equal and empty, yet the comparator records \<^verbatim>\<open>constructor\<close> under \<^verbatim>\<open>same\<close>; the
  request reaches this point through the handler, which returns it in \<^verbatim>\<open>sameProperties\<close>. For a
  property name that is no member of \<^verbatim>\<open>Object.prototype\<close> the comparator records what the
  values say (\<open>compare_styles_own_properties\<close>), and the two orders of comparison agree for
  every list (\<open>compare_styles_symmetry\<close>).
\<close>

theorem compare_styles_inherited_member:
  "computed_value [\<lparr>cp_name = ''color'', cp_value = ''red''\<rparr>] ''constructor'' = []
   \<and> computed_value [\<lparr>cp_name = ''color'', cp_value = ''blue''\<rparr>] ''constructor'' = []
   \<and> compare_styles [''constructor'', ''color'']
        [\<lparr>cp_name = ''color'', cp_value = ''red''\<rparr>] [\<lparr>cp_name = ''color'', cp_value = ''blue''\<rparr>] =
       ([(''color'', \<lparr>element1 = Str ''red'', element2 = Str ''blue''\<rparr>)], [''constructor''])
   \<and> fst (compareElements (page_browser sample_page) sample_context
        \<lparr>cmp_uid1 = ''1_5'', cmp_uid2 = ''1_6'',
         cmp_properties = Some [''constructor'', ''color'']\<rparr> []) =
       Inr \<lparr>cr_element1 = ''1_5'', cr_element2 = ''1_6'', cr_differenceCount = 1,
            cr_differences = [(''color'', \<lparr>element1 = Str ''red'', element2 = Str ''blue''\<rparr>)],
            cr_sameProperties = [''constructor'']\<rparr>"
  by (simp add: computed_value_def or_empty_def compare_styles_def obj_get_def obj_set_def
      Object_prototype_def or_empty_value_def truthy_value_def
      compareElements_def ensureDomEnabled_def ensureCssEnabled_def resolveToNodeId_def
      bind_io_def send_def return_io_def throw_def promise_all2_def usable_backendNodeId_def
      page_browser_def idle_browser_def sample_page_def sample_context_def uid_context_def
      on_node_def Let_def)

section \<open>Properties of the tree walker\<close>

lemma formatNode_None_iff:
  "formatNode N (Some n) d = None \<longleftrightarrow> N < d \<or> nodeType n = 3 \<or> nodeType n = 8"
  by (cases n) (simp add: Let_def split: option.splits)

lemma kept_children_mem:
  "t \<in> set (kept_children N cs d) \<longleftrightarrow> (\<exists>ch \<in> set cs. formatNode N (Some ch) (d + 1) = Some t)"
  by (force simp: kept_children_def image_iff)

lemma formatNode_Some:
  "formatNode N (Some n) d = Some t \<Longrightarrow>
     \<not> N < d \<and> nodeType n \<noteq> 3 \<and> nodeType n \<noteq> 8
     \<and> tn_tag t = toLowerCase (nodeName n)
     \<and> tn_id t = or_null (map_of (attrMap_of (case node_attributes n of None \<Rightarrow> [] | Some a \<Rightarrow> a)) ''id'')
     \<and> tn_class t = or_null (map_of (attrMap_of (case node_attributes n of None \<Rightarrow> [] | Some a \<Rightarrow> a)) ''class'')
     \<and> tn_children t =
         (case node_children n of
            None \<Rightarrow> None
          | Some cs \<Rightarrow>
              if d < N \<and> kept_children N cs d \<noteq> [] then Some (kept_children N cs d) else None)"
  by (cases n) (auto simp add: Let_def kept_children_def split: option.splits if_splits)

lemma formatNode_depths:
  "formatNode N n d = Some t \<Longrightarrow> k \<in> set (node_depths k0 t) \<Longrightarrow> int k \<le> int k0 + (N - d)"
proof (induction N n d arbitrary: t k k0 rule: formatNode.induct)
  case (1 depth currentDepth)
  then show ?case by simp
next
  case (2 depth nm ty b cc ats chs currentDepth)
  let ?n = "Node nm ty b cc ats chs"
  from formatNode_Some [OF "2.prems"(1)]
  have le: "currentDepth \<le> depth" and ty: "\<not> (ty = 3 \<or> ty = 8)"
    and ch: "tn_children t = (case chs of None \<Rightarrow> None
          | Some cs \<Rightarrow> if currentDepth < depth \<and> kept_children depth cs currentDepth \<noteq> []
              then Some (kept_children depth cs currentDepth) else None)"
    by auto
  obtain tg i c tch where t: "t = TreeNode tg i c tch" by (cases t)
  show ?case
  proof (cases tch)
    case None
    with "2.prems"(2) t le show ?thesis by simp
  next
    case (Some ts)
    with ch t obtain cs where chs: "chs = Some cs" and lt: "currentDepth < depth"
      and ts: "ts = kept_children depth cs currentDepth"
      by (auto split: option.splits if_splits)
    from "2.prems"(2) t Some consider "k = k0" | t' where "t' \<in> set ts" "k \<in> set (node_depths (k0 + 1) t')"
      by auto
    then show ?thesis
    proof cases
      case 1
      with le show ?thesis by simp
    next
      case 2
      from 2(1) ts obtain child where child: "child \<in> set cs"
        and f: "formatNode depth (Some child) (currentDepth + 1) = Some t'"
        by (auto simp: kept_children_mem)
      have "\<not> depth < currentDepth" using le by simp
      from "2.IH" [OF this ty refl refl refl refl refl chs lt child f 2(2)]
      show ?thesis by simp
    qed
  qed
qed

lemma formatNode_entry_for:
  "formatNode N n d = Some t \<Longrightarrow> n = Some m \<Longrightarrow> entry_for t m"
proof (induction N n d arbitrary: t m rule: formatNode.induct)
  case (1 depth currentDepth)
  then show ?case by simp
next
  case (2 depth nm ty b cc ats chs currentDepth)
  from "2.prems"(2) have m: "m = Node nm ty b cc ats chs" by simp
  from "2.prems"(1) have fm: "formatNode depth (Some m) currentDepth = Some t"
    by (simp only: m)
  note S = formatNode_Some [OF fm]
  from S have le: "\<not> depth < currentDepth" and ty: "\<not> (ty = 3 \<or> ty = 8)"
    by (auto simp: m)
  obtain tg i c tch where t: "t = TreeNode tg i c tch" by (cases t)
  have kids: "case tch of None \<Rightarrow> True
    | Some ts \<Rightarrow> ts \<noteq> [] \<and>
        (\<forall>t' \<in> set ts. \<exists>ch \<in> set (case chs of None \<Rightarrow> [] | Some cs \<Rightarrow> cs). entry_for t' ch)"
  proof (cases tch)
    case None
    then show ?thesis by simp
  next
    case (Some ts)
    with S t obtain cs where chs: "chs = Some cs" and lt: "currentDepth < depth"
      and ts: "ts = kept_children depth cs currentDepth" and ne: "ts \<noteq> []"
      by (auto simp: m split: option.splits if_splits)
    have "\<exists>ch \<in> set cs. entry_for t' ch" if "t' \<in> set ts" for t'
    proof -
      from that ts obtain child where child: "child \<in> set cs"
        and f: "formatNode depth (Some child) (currentDepth + 1) = Some t'"
        by (auto simp: kept_children_mem)
      from "2.IH" [OF le ty refl refl refl refl refl chs lt child f refl] child
      show ?thesis by blast
    qed
    with Some ne chs show ?thesis by simp
  qed
  from S t have fields: "tg = toLowerCase nm"
    "i = or_null (map_of (attrMap_of (case ats of None \<Rightarrow> [] | Some a \<Rightarrow> a)) ''id'')"
    "c = or_null (map_of (attrMap_of (case ats of None \<Rightarrow> [] | Some a \<Rightarrow> a)) ''class'')"
    by (simp_all add: m)
  from ty fields kids show ?case
    unfolding m t by (simp cong: option.case_cong)
qed

text \<open>
  C7. For every requested depth and every node tree, the formatted tree has no node deeper
  than the requested depth (the root being at depth 0); a node is pruned exactly when the
  depth is exceeded or it is a text (3) or comment (8) node, so no entry of the output stands
  for such a node; an entry carries only the tag and the non-empty \<^verbatim>\<open>id\<close> and \<^verbatim>\<open>class\<close>
  attributes of its node; and a \<^verbatim>\<open>children\<close> field, when present, is a non-empty list of
  entries for children of that node.
\<close>

theorem formatNode_bounded_projection:
  "(formatNode N (Some n) d = None \<longleftrightarrow> N < d \<or> nodeType n = 3 \<or> nodeType n = 8)
   \<and> (\<forall>t. formatNode N (Some n) 0 = Some t \<longrightarrow>
         (\<forall>k \<in> set (node_depths 0 t). int k \<le> N) \<and> entry_for t n)"
proof (intro conjI allI impI ballI)
  show "formatNode N (Some n) d = None \<longleftrightarrow> N < d \<or> nodeType n = 3 \<or> nodeType n = 8"
    by (rule formatNode_None_iff)
next
  fix t k
  assume "formatNode N (Some n) 0 = Some t" and "k \<in> set (node_depths 0 t)"
  from formatNode_depths [OF this] show "int k \<le> N" by simp
next
  fix t
  assume "formatNode N (Some n) 0 = Some t"
  then show "entry_for t n" by (rule formatNode_entry_for) simp
qed

theorem formatNode_bounded_projection_witness:
  "formatNode 1
     (Some (Node ''DIV'' 1 7 (Some 3) (Some [''id'', ''x'', ''class'', [], ''title'', ''t''])
        (Some [Node ''#text'' 3 8 None None None,
               Node ''SPAN'' 1 9 (Some 1) (Some [''class'', ''c''])
                 (Some [Node ''B'' 1 10 None None None]),
               Node ''#comment'' 8 11 None None None]))) 0
     = Some (TreeNode ''div'' (Some ''x'') None (Some [TreeNode ''span'' None (Some ''c'') None]))
   \<and> node_depths 0
        (TreeNode ''div'' (Some ''x'') None (Some [TreeNode ''span'' None (Some ''c'') None]))
       = [0, 1]
   \<and> entry_for
        (TreeNode ''div'' (Some ''x'') None (Some [TreeNode ''span'' None (Some ''c'') None]))
        (Node ''DIV'' 1 7 (Some 3) (Some [''id'', ''x'', ''class'', [], ''title'', ''t''])
        (Some [Node ''#text'' 3 8 None None None,
               Node ''SPAN'' 1 9 (Some 1) (Some [''class'', ''c''])
                 (Some [Node ''B'' 1 10 None None None]),
               Node ''#comment'' 8 11 None None None]))"
proof -
  let ?n = "Node ''DIV'' 1 7 (Some 3) (Some [''id'', ''x'', ''class'', [], ''title'', ''t''])
        (Some [Node ''#text'' 3 8 None None None,
               Node ''SPAN'' 1 9 (Some 1) (Some [''class'', ''c''])
                 (Some [Node ''B'' 1 10 None None None]),
               Node ''#comment'' 8 11 None None None])"
  let ?t = "TreeNode ''div'' (Some ''x'') None (Some [TreeNode ''span'' None (Some ''c'') None])"
  have out: "formatNode 1 (Some ?n) 0 = Some ?t"
    by (simp add: attrMap_of_def obj_set_def or_null_def toLowerCase_def)
  from formatNode_bounded_projection [of 1 ?n 0] out
  have "(\<forall>k \<in> set (node_depths 0 ?t). int k \<le> 1) \<and> entry_for ?t ?n"
    by blast
  moreover have "node_depths 0 ?t = [0, 1]"
    by simp
  ultimately show ?thesis using out by blast
qed

section \<open>Properties of the session helpers and the tool schema\<close>


lemma ensureDomEnabled_log:
  "snd (ensureDomEnabled br s) =
     s @ DOM_enable # (case reply_void br s DOM_enable of Inl e \<Rightarrow> [] | Inr u \<Rightarrow> [DOM_getDocument 0 None])"
  by (simp add: ensureDomEnabled_def bind_io_def send_def return_io_def split: sum.splits)

lemma ensureDomEnabled_result:
  "fst (ensureDomEnabled br s) =
     (case reply_void br s DOM_enable of
        Inl e \<Rightarrow> Inl e
      | Inr u \<Rightarrow>
          (case reply_getDocument br (s @ [DOM_enable]) (DOM_getDocument 0 None) of
             Inl e \<Rightarrow> Inl e
           | Inr r \<Rightarrow> Inr ()))"
  by (simp add: ensureDomEnabled_def bind_io_def send_def return_io_def split: sum.splits)



lemma resolveToNodeId_log:
  "snd (resolveToNodeId br b s) = s @ [DOM_pushNodesByBackendIdsToFrontend [b]]"
  by (simp add: resolveToNodeId_def bind_io_def send_def return_io_def throw_def
      split: sum.splits option.splits list.splits)

lemma resolveToNodeId_result:
  "fst (resolveToNodeId br b s) =
     (case reply_pushNodes br s (DOM_pushNodesByBackendIdsToFrontend [b]) of
        Inl e \<Rightarrow> Inl e
      | Inr nodeIds \<Rightarrow>
          if nodeIds = None \<or> nodeIds = Some [] \<or> (\<exists>rest. nodeIds = Some (0 # rest))
          then Inl ResolutionError
          else Inr (hd (the nodeIds)))"
  by (simp add: resolveToNodeId_def bind_io_def send_def return_io_def throw_def
      split: sum.splits option.splits list.splits)

text \<open>
  C5. \<^const>\<open>resolveToNodeId\<close> always sends the push command with exactly the single-element
  batch of its backend node id. When the command returns, the function throws (the
  resolution error) exactly when the returned list of node ids is absent, empty, or has zero
  as its first element, and otherwise returns that first element, which is strictly
  positive, node ids of the protocol being non-negative. When the command itself fails, its
  error propagates.
\<close>

theorem resolveToNodeId_characterisation:
  "snd (resolveToNodeId br b s) = s @ [DOM_pushNodesByBackendIdsToFrontend [b]]
   \<and> (\<forall>nodeIds.
        reply_pushNodes br s (DOM_pushNodesByBackendIdsToFrontend [b]) = Inr nodeIds \<longrightarrow>
          ((\<exists>e. fst (resolveToNodeId br b s) = Inl e) \<longleftrightarrow>
             nodeIds = None \<or> nodeIds = Some [] \<or> (\<exists>rest. nodeIds = Some (0 # rest)))
          \<and> (\<forall>e. fst (resolveToNodeId br b s) = Inl e \<longrightarrow> e = ResolutionError)
          \<and> ((\<nexists>e. fst (resolveToNodeId br b s) = Inl e) \<longrightarrow>
               (\<exists>first rest. nodeIds = Some (first # rest)
                  \<and> fst (resolveToNodeId br b s) = Inr first
                  \<and> first \<noteq> 0
                  \<and> (node_ids (first # rest) \<longrightarrow> 0 < first))))
   \<and> (\<forall>e. reply_pushNodes br s (DOM_pushNodesByBackendIdsToFrontend [b]) = Inl e \<longrightarrow>
          fst (resolveToNodeId br b s) = Inl e)"
proof (intro conjI allI impI)
  show "snd (resolveToNodeId br b s) = s @ [DOM_pushNodesByBackendIdsToFrontend [b]]"
    by (rule resolveToNodeId_log)
next
  fix e
  assume "reply_pushNodes br s (DOM_pushNodesByBackendIdsToFrontend [b]) = Inl e"
  then show "fst (resolveToNodeId br b s) = Inl e"
    by (simp add: resolveToNodeId_result)
next
  fix nodeIds
  assume r: "reply_pushNodes br s (DOM_pushNodesByBackendIdsToFrontend [b]) = Inr nodeIds"
  show "(\<exists>e. fst (resolveToNodeId br b s) = Inl e) \<longleftrightarrow>
          nodeIds = None \<or> nodeIds = Some [] \<or> (\<exists>rest. nodeIds = Some (0 # rest))"
    using r by (simp add: resolveToNodeId_result)
  {
    fix e
    assume "fst (resolveToNodeId br b s) = Inl e"
    then show "e = ResolutionError"
      using r by (simp add: resolveToNodeId_result split: if_splits)
  }
  assume "\<nexists>e. fst (resolveToNodeId br b s) = Inl e"
  then have "\<exists>first rest. nodeIds = Some (first # rest) \<and> first \<noteq> 0"
    using r by (cases nodeIds; cases "the nodeIds") (auto simp add: resolveToNodeId_result)
  then obtain first rest where ids: "nodeIds = Some (first # rest)" and nz: "first \<noteq> 0"
    by blast
  from nz have "node_ids (first # rest) \<longrightarrow> 0 < first"
    by (simp add: node_ids_def)
  with ids nz r
  show "\<exists>first rest. nodeIds = Some (first # rest)
          \<and> fst (resolveToNodeId br b s) = Inr first
          \<and> first \<noteq> 0
          \<and> (node_ids (first # rest) \<longrightarrow> 0 < first)"
    by (simp add: resolveToNodeId_result)
qed

theorem resolveToNodeId_characterisation_witness:
  "reply_pushNodes (page_browser sample_page) [] (DOM_pushNodesByBackendIdsToFrontend [5]) =
     Inr (Some [5])
   \<and> node_ids [5]
   \<and> resolveToNodeId (page_browser sample_page) 5 [] =
       (Inr 5, [DOM_pushNodesByBackendIdsToFrontend [5]])
   \<and> reply_pushNodes (page_browser sample_page) [] (DOM_pushNodesByBackendIdsToFrontend [9]) =
     Inr (Some [0])
   \<and> fst (resolveToNodeId (page_browser sample_page) 9 []) = Inl ResolutionError"
proof -
  let ?br = "page_browser sample_page"
  note inst = resolveToNodeId_characterisation [of ?br _ "[]"]
  have r5: "reply_pushNodes ?br [] (DOM_pushNodesByBackendIdsToFrontend [5]) = Inr (Some [5])"
    and r9: "reply_pushNodes ?br [] (DOM_pushNodesByBackendIdsToFrontend [9]) = Inr (Some [0])"
    by (simp_all add: page_browser_def sample_page_def)
  have n5: "node_ids [5]"
    by (simp add: node_ids_def)
  from inst [of 5] r5
  have t5: "(\<exists>e. fst (resolveToNodeId ?br 5 []) = Inl e) \<longleftrightarrow>
              Some [5::int] = None \<or> Some [5::int] = Some [] \<or> (\<exists>rest. Some [5::int] = Some (0 # rest))"
    and f5: "(\<nexists>e. fst (resolveToNodeId ?br 5 []) = Inl e) \<longrightarrow>
               (\<exists>first rest. Some [5] = Some (first # rest)
                  \<and> fst (resolveToNodeId ?br 5 []) = Inr first
                  \<and> first \<noteq> 0
                  \<and> (node_ids (first # rest) \<longrightarrow> 0 < first))"
    and l5: "snd (resolveToNodeId ?br 5 []) = [] @ [DOM_pushNodesByBackendIdsToFrontend [5]]"
    by blast+
  from t5 have "\<nexists>e. fst (resolveToNodeId ?br 5 []) = Inl e" by simp
  with f5 have "fst (resolveToNodeId ?br 5 []) = Inr 5" by auto
  with l5 have out5: "resolveToNodeId ?br 5 [] = (Inr 5, [DOM_pushNodesByBackendIdsToFrontend [5]])"
    by (simp add: prod_eq_iff)
  from inst [of 9] r9
  have t9: "(\<exists>e. fst (resolveToNodeId ?br 9 []) = Inl e) \<longleftrightarrow>
              Some [0::int] = None \<or> Some [0::int] = Some [] \<or> (\<exists>rest. Some [0::int] = Some (0 # rest))"
    and e9: "\<forall>e. fst (resolveToNodeId ?br 9 []) = Inl e \<longrightarrow> e = ResolutionError"
    by blast+
  from t9 obtain e where "fst (resolveToNodeId ?br 9 []) = Inl e" by auto
  with e9 have out9: "fst (resolveToNodeId ?br 9 []) = Inl ResolutionError" by auto
  from r5 n5 r9 out5 out9 show ?thesis
    by blast
qed





section \<open>Unknown UIDs\<close>

lemma usable_backendNodeId_None:
  "usable_backendNodeId axNode = None \<longleftrightarrow>
     axNode = None \<or> (\<exists>a. axNode = Some a \<and> (ax_backendNodeId a = None \<or> ax_backendNodeId a = Some 0))"
  by (auto simp: usable_backendNodeId_def split: option.splits)

lemma ensureDomEnabled_ok_log:
  "fst (ensureDomEnabled br s) = Inr u \<Longrightarrow>
   snd (ensureDomEnabled br s) = s @ [DOM_enable, DOM_getDocument 0 None]"
  by (auto simp add: ensureDomEnabled_log ensureDomEnabled_result split: sum.splits)

lemma enable_prelude_log:
  "snd (enable_prelude br extra s) =
     (case fst (ensureDomEnabled br s) of
        Inl e \<Rightarrow> snd (ensureDomEnabled br s)
      | Inr u \<Rightarrow> snd (ensureDomEnabled br s) @ (case extra of None \<Rightarrow> [] | Some c \<Rightarrow> [c]))"
  by (cases "ensureDomEnabled br s")
    (simp add: enable_prelude_def bind_io_def send_def return_io_def split: sum.splits option.splits)

lemma enabling_only_prelude:
  "enabling_only (DOM_getDocument 0 None # (case extra of None \<Rightarrow> [] | Some c \<Rightarrow> [c])) s
     (snd (enable_prelude br extra s))"
  by (auto simp add: enabling_only_def enable_prelude_log ensureDomEnabled_log
      split: sum.splits option.splits)

lemma enable_prelude_ok_log:
  assumes "fst (enable_prelude br extra s) = Inr u"
  shows "snd (enable_prelude br extra s) =
     s @ DOM_enable # DOM_getDocument 0 None # (case extra of None \<Rightarrow> [] | Some c \<Rightarrow> [c])"
proof -
  obtain r s1 where d: "ensureDomEnabled br s = (r, s1)"
    by (cases "ensureDomEnabled br s")
  with assms obtain v where r: "r = Inr v"
    by (cases r) (auto simp add: enable_prelude_def bind_io_def)
  from d r have "s1 = s @ [DOM_enable, DOM_getDocument 0 None]"
    using ensureDomEnabled_ok_log [of br s v] by simp
  with d r show ?thesis
    by (simp add: enable_prelude_log)
qed

lemma fails_after_enables:
  assumes "out = (case enable_prelude br extra s of
                    (Inl e, s') \<Rightarrow> (Inl e, s')
                  | (Inr u, s') \<Rightarrow> (Inl (UnknownUid uid), s'))"
  shows "enables_then_fails br extra uid s out"
proof -
  obtain r s1 where p: "enable_prelude br extra s = (r, s1)"
    by (cases "enable_prelude br extra s")
  from assms p have fst_out: "fst out = (case fst (enable_prelude br extra s) of
      Inl e \<Rightarrow> Inl e | Inr u \<Rightarrow> Inl (UnknownUid uid))"
    and snd_out: "snd out = s1"
    by (auto split: sum.splits)
  have only: "enabling_only (DOM_getDocument 0 None # (case extra of None \<Rightarrow> [] | Some c \<Rightarrow> [c]))
      s (snd out)"
    using enabling_only_prelude [of extra s br] p snd_out by simp
  have ok: "snd out =
      s @ DOM_enable # DOM_getDocument 0 None # (case extra of None \<Rightarrow> [] | Some c \<Rightarrow> [c])"
    if "fst (enable_prelude br extra s) = Inr ()"
    using enable_prelude_ok_log [OF that] p snd_out by simp
  from fst_out only ok show ?thesis
    unfolding enables_then_fails_def by blast
qed

lemmas prelude_defs =
  enable_prelude_def ensureCssEnabled_def ensureOverlayEnabled_def bind_io_def throw_def
  return_io_def

lemma inspectElement_unknown:
  assumes "ip_uid p = uid" "usable_backendNodeId (getAXNodeByUid ctx uid) = None"
  shows "enables_then_fails br None uid s (inspectElement br ctx p s)"
  by (rule fails_after_enables)
    (simp add: inspectElement_def assms prelude_defs split: prod.splits sum.splits)

lemma getElementStyles_unknown:
  assumes "st_uid p = uid" "usable_backendNodeId (getAXNodeByUid ctx uid) = None"
  shows "enables_then_fails br (Some CSS_enable) uid s (getElementStyles br ctx p s)"
  by (rule fails_after_enables)
    (simp add: getElementStyles_def assms prelude_defs split: prod.splits sum.splits)

lemma getElementBoxModel_unknown:
  assumes "usable_backendNodeId (getAXNodeByUid ctx uid) = None"
  shows "enables_then_fails br None uid s (getElementBoxModel br ctx uid s)"
  by (rule fails_after_enables)
    (simp add: getElementBoxModel_def assms prelude_defs split: prod.splits sum.splits)

lemma highlightElement_unknown:
  assumes "hp_uid p = uid" "usable_backendNodeId (getAXNodeByUid ctx uid) = None"
  shows "enables_then_fails br (Some Overlay_enable) uid s (highlightElement br ctx p s)"
  by (rule fails_after_enables)
    (simp add: highlightElement_def assms prelude_defs split: prod.splits sum.splits)

lemma getDomTree_unknown:
  assumes "tp_uid p = Some uid" "uid \<noteq> []" "usable_backendNodeId (getAXNodeByUid ctx uid) = None"
  shows "enables_then_fails br None uid s (getDomTree br ctx p s)"
  by (rule fails_after_enables)
    (simp add: getDomTree_def assms prelude_defs split: prod.splits sum.splits)

lemma forceElementState_unknown:
  assumes "fs_uid p = uid" "usable_backendNodeId (getAXNodeByUid ctx uid) = None"
  shows "enables_then_fails br (Some CSS_enable) uid s (forceElementState br ctx p s)"
  by (rule fails_after_enables)
    (simp add: forceElementState_def assms prelude_defs split: prod.splits sum.splits)

lemma getElementEventListeners_unknown:
  assumes "usable_backendNodeId (getAXNodeByUid ctx uid) = None"
  shows "enables_then_fails br None uid s (getElementEventListeners br ctx uid s)"
  by (rule fails_after_enables)
    (simp add: getElementEventListeners_def assms prelude_defs split: prod.splits sum.splits)

lemma getFontsInfo_unknown:
  assumes "usable_backendNodeId (getAXNodeByUid ctx uid) = None"
  shows "enables_then_fails br (Some CSS_enable) uid s (getFontsInfo br ctx uid s)"
  by (rule fails_after_enables)
    (simp add: getFontsInfo_def assms prelude_defs split: prod.splits sum.splits)

lemma showLayoutOverlay_unknown:
  assumes "lo_uid p = uid" "usable_backendNodeId (getAXNodeByUid ctx uid) = None"
  shows "enables_then_fails br (Some Overlay_enable) uid s (showLayoutOverlay br ctx p s)"
  by (rule fails_after_enables)
    (simp add: showLayoutOverlay_def assms prelude_defs split: prod.splits sum.splits)

lemma getAccessibilityInfo_unknown:
  assumes "ap_uid p = uid" "usable_backendNodeId (getAXNodeByUid ctx uid) = None"
  shows "enables_then_fails br (Some Accessibility_enable) uid s (getAccessibilityInfo br ctx p s)"
  by (rule fails_after_enables)
    (simp add: getAccessibilityInfo_def assms prelude_defs split: prod.splits sum.splits)

lemma compareElements_unknown1:
  assumes "cmp_uid1 p = uid" "usable_backendNodeId (getAXNodeByUid ctx uid) = None"
  shows "enables_then_fails br (Some CSS_enable) uid s (compareElements br ctx p s)"
  by (rule fails_after_enables)
    (simp add: compareElements_def assms prelude_defs Let_def split: prod.splits sum.splits)

lemma compareElements_unknown2:
  assumes "cmp_uid2 p = uid" "usable_backendNodeId (getAXNodeByUid ctx uid) = None"
    "usable_backendNodeId (getAXNodeByUid ctx (cmp_uid1 p)) \<noteq> None"
  shows "enables_then_fails br (Some CSS_enable) uid s (compareElements br ctx p s)"
  using assms(3)
  by (intro fails_after_enables)
    (auto simp add: compareElements_def assms(1,2) prelude_defs Let_def
      split: prod.splits sum.splits)

lemma getCssVariables_unknown:
  assumes "usable_backendNodeId (getAXNodeByUid ctx uid) = None"
  shows "enables_then_fails br (Some CSS_enable) uid s (getCssVariables br ctx uid s)"
  by (rule fails_after_enables)
    (simp add: getCssVariables_def assms prelude_defs split: prod.splits sum.splits)


text \<open>
  C2 (as amended). When the external lookup returns nothing, or an entry without a usable
  backend node id, every handler that takes a UID fails, but not before any protocol call: it
  has first sent its domain-enabling commands (\<^verbatim>\<open>DOM.enable\<close>, then \<^verbatim>\<open>DOM.getDocument\<close> with
  depth 0, and for some handlers \<^verbatim>\<open>CSS.enable\<close>, \<^verbatim>\<open>Overlay.enable\<close> or \<^verbatim>\<open>Accessibility.enable\<close>).
  It sends nothing else; the failure is the unknown-UID error when the enabling commands
  succeed, and the error of the enabling command that failed otherwise. (\<^verbatim>\<open>get_dom_tree\<close> looks a UID up only when it is given and not empty.)
\<close>

theorem unknown_uid_fails_after_enabling:
  assumes "usable_backendNodeId (getAXNodeByUid ctx uid) = None"
  shows
    "enables_then_fails br None uid s (inspectElement br ctx (ip\<lparr>ip_uid := uid\<rparr>) s)
     \<and> enables_then_fails br (Some CSS_enable) uid s
          (getElementStyles br ctx (sp\<lparr>st_uid := uid\<rparr>) s)
     \<and> enables_then_fails br None uid s (getElementBoxModel br ctx uid s)
     \<and> enables_then_fails br (Some Overlay_enable) uid s
          (highlightElement br ctx (hp\<lparr>hp_uid := uid\<rparr>) s)
     \<and> (uid \<noteq> [] \<longrightarrow>
          enables_then_fails br None uid s (getDomTree br ctx (tp\<lparr>tp_uid := Some uid\<rparr>) s))
     \<and> enables_then_fails br (Some CSS_enable) uid s
          (forceElementState br ctx (fp\<lparr>fs_uid := uid\<rparr>) s)
     \<and> enables_then_fails br None uid s (getElementEventListeners br ctx uid s)
     \<and> enables_then_fails br (Some CSS_enable) uid s (getFontsInfo br ctx uid s)
     \<and> enables_then_fails br (Some Overlay_enable) uid s
          (showLayoutOverlay br ctx (lp\<lparr>lo_uid := uid\<rparr>) s)
     \<and> enables_then_fails br (Some Accessibility_enable) uid s
          (getAccessibilityInfo br ctx (ap\<lparr>ap_uid := uid\<rparr>) s)
     \<and> enables_then_fails br (Some CSS_enable) uid s
          (compareElements br ctx (cp\<lparr>cmp_uid1 := uid\<rparr>) s)
     \<and> (usable_backendNodeId (getAXNodeByUid ctx (cmp_uid1 cp)) \<noteq> None \<longrightarrow>
          enables_then_fails br (Some CSS_enable) uid s
            (compareElements br ctx (cp\<lparr>cmp_uid2 := uid\<rparr>) s))
     \<and> enables_then_fails br (Some CSS_enable) uid s (getCssVariables br ctx uid s)"
proof (intro conjI impI)
  show "enables_then_fails br None uid s (inspectElement br ctx (ip\<lparr>ip_uid := uid\<rparr>) s)"
    by (rule inspectElement_unknown) (simp_all add: assms)
  show "enables_then_fails br (Some CSS_enable) uid s
      (getElementStyles br ctx (sp\<lparr>st_uid := uid\<rparr>) s)"
    by (rule getElementStyles_unknown) (simp_all add: assms)
  show "enables_then_fails br None uid s (getElementBoxModel br ctx uid s)"
    by (rule getElementBoxModel_unknown) (rule assms)
  show "enables_then_fails br (Some Overlay_enable) uid s
      (highlightElement br ctx (hp\<lparr>hp_uid := uid\<rparr>) s)"
    by (rule highlightElement_unknown) (simp_all add: assms)
  show "enables_then_fails br None uid s (getDomTree br ctx (tp\<lparr>tp_uid := Some uid\<rparr>) s)"
    if "uid \<noteq> []"
    by (rule getDomTree_unknown) (simp_all add: assms that)
  show "enables_then_fails br (Some CSS_enable) uid s
      (forceElementState br ctx (fp\<lparr>fs_uid := uid\<rparr>) s)"
    by (rule forceElementState_unknown) (simp_all add: assms)
  show "enables_then_fails br None uid s (getElementEventListeners br ctx uid s)"
    by (rule getElementEventListeners_unknown) (rule assms)
  show "enables_then_fails br (Some CSS_enable) uid s (getFontsInfo br ctx uid s)"
    by (rule getFontsInfo_unknown) (rule assms)
  show "enables_then_fails br (Some Overlay_enable) uid s
      (showLayoutOverlay br ctx (lp\<lparr>lo_uid := uid\<rparr>) s)"
    by (rule showLayoutOverlay_unknown) (simp_all add: assms)
  show "enables_then_fails br (Some Accessibility_enable) uid s
      (getAccessibilityInfo br ctx (ap\<lparr>ap_uid := uid\<rparr>) s)"
    by (rule getAccessibilityInfo_unknown) (simp_all add: assms)
  show "enables_then_fails br (Some CSS_enable) uid s
      (compareElements br ctx (cp\<lparr>cmp_uid1 := uid\<rparr>) s)"
    by (rule compareElements_unknown1) (simp_all add: assms)
  show "enables_then_fails br (Some CSS_enable) uid s
      (compareElements br ctx (cp\<lparr>cmp_uid2 := uid\<rparr>) s)"
    if "usable_backendNodeId (getAXNodeByUid ctx (cmp_uid1 cp)) \<noteq> None"
    by (rule compareElements_unknown2) (simp_all add: assms that)
  show "enables_then_fails br (Some CSS_enable) uid s (getCssVariables br ctx uid s)"
    by (rule getCssVariables_unknown) (rule assms)
qed

theorem unknown_uid_fails_after_enabling_witness:
  "usable_backendNodeId (getAXNodeByUid \<lparr>getAXNodeByUid = (\<lambda>uid. None)\<rparr> ''42_5'') = None
   \<and> fst (enable_prelude idle_browser None []) = Inr ()
   \<and> inspectElement idle_browser \<lparr>getAXNodeByUid = (\<lambda>uid. None)\<rparr>
        \<lparr>ip_uid = ''42_5'', ip_includeHtml = True, ip_maxHtmlLength = 5000\<rparr> [] =
       (Inl (UnknownUid ''42_5''), [DOM_enable, DOM_getDocument 0 None])"
proof -
  let ?ctx = "\<lparr>getAXNodeByUid = (\<lambda>uid. None)\<rparr>"
  let ?ip = "\<lparr>ip_uid = ''42_5'', ip_includeHtml = True, ip_maxHtmlLength = 5000\<rparr>"
  have u: "usable_backendNodeId (getAXNodeByUid ?ctx ''42_5'') = None"
    by (simp add: usable_backendNodeId_def)
  have ok: "fst (enable_prelude idle_browser None []) = Inr ()"
    by (simp add: enable_prelude_def ensureDomEnabled_def bind_io_def send_def return_io_def
        idle_browser_def)
  have "enables_then_fails idle_browser None ''42_5'' []
      (inspectElement idle_browser ?ctx (?ip\<lparr>ip_uid := ''42_5''\<rparr>) [])"
    by (rule unknown_uid_fails_after_enabling [OF u, THEN conjunct1])
  with ok have "inspectElement idle_browser ?ctx (?ip\<lparr>ip_uid := ''42_5''\<rparr>) [] =
       (Inl (UnknownUid ''42_5''), [] @ DOM_enable # DOM_getDocument 0 None # [])"
    unfolding enables_then_fails_def by (simp add: prod_eq_iff)
  with u ok show ?thesis by simp
qed

theorem unknown_uid_zero_calls_counterexample:
  "inspectElement idle_browser \<lparr>getAXNodeByUid = (\<lambda>uid. None)\<rparr>
        \<lparr>ip_uid = ''42_5'', ip_includeHtml = True, ip_maxHtmlLength = 5000\<rparr> [] =
       (Inl (UnknownUid ''42_5''), [DOM_enable, DOM_getDocument 0 None])
   \<and> getElementStyles idle_browser \<lparr>getAXNodeByUid = (\<lambda>uid. Some \<lparr>ax_backendNodeId = None\<rparr>)\<rparr>
        \<lparr>st_uid = ''42_5'', st_includeInherited = False, st_includeComputed = True,
         st_properties = None\<rparr> [] =
       (Inl (UnknownUid ''42_5''), [DOM_enable, DOM_getDocument 0 None, CSS_enable])"
  by (simp add: inspectElement_def getElementStyles_def ensureDomEnabled_def ensureCssEnabled_def
      bind_io_def send_def return_io_def throw_def idle_browser_def usable_backendNodeId_def)

section \<open>Properties of the snapshot capturer\<close>

lemma format_document_bound:
  "format_document strings entry = Some out \<Longrightarrow> length (sd_nodes out) \<le> 50"
  by (auto simp add: format_document_def Let_def split: option.splits)

lemma format_snapshot_bound:
  "d \<in> set (res_documents (format_snapshot snap)) \<Longrightarrow> length (sd_nodes d) \<le> 50"
proof -
  assume "d \<in> set (res_documents (format_snapshot snap))"
  then obtain entry where "format_document (snap_strings snap) entry = Some d"
    by (auto simp add: format_snapshot_def Let_def List.map_filter_def)
  then show ?thesis by (rule format_document_bound)
qed

lemma truncated_nodeCount:
  assumes "truncated strings entry" and "format_document strings entry = Some out"
  shows "50 < sd_nodeCount out"
proof (rule ccontr)
  assume "\<not> 50 < sd_nodeCount out"
  from assms(2) obtain nodeNames where nn: "doc_nodeName (snd entry) = Some nodeNames"
    and out: "out = \<lparr>sd_documentIndex = fst entry,
        sd_url = or_empty (elem_at_int strings (doc_documentURL (snd entry))),
        sd_nodeCount = length nodeNames,
        sd_nodes = take 50 (List.map_filter (snapshot_node_at strings (snd entry) nodeNames)
                     [0 ..< min (length nodeNames) 100])\<rparr>"
    by (auto simp add: format_document_def Let_def split: option.splits)
  from \<open>\<not> 50 < sd_nodeCount out\<close> out have le: "length nodeNames \<le> 50" by simp
  then have m: "min (length nodeNames) 100 = length nodeNames" by simp
  have "length (List.map_filter (snapshot_node_at strings (snd entry) nodeNames)
          [0 ..< length nodeNames]) \<le> length nodeNames"
    by (simp add: List.map_filter_def)
      (metis diff_zero length_filter_le length_upt)
  with le have "length (sd_nodes out) = length (element_nodes strings (snd entry))"
    by (simp add: out m element_nodes_def nn)
  with assms show False
    by (simp add: truncated_def)
qed

lemma first_document_annotated:
  assumes "res_documents (format_snapshot snap) = d # ds"
  shows "res_note (format_snapshot snap) \<noteq> None \<longleftrightarrow> 50 < sd_nodeCount d"
  using assms by (simp add: format_snapshot_def Let_def split: list.splits)

text \<open>
  C4. Every emitted document has at most 50 nodes (\<open>format_snapshot_bound\<close>), and a truncated
  document has more than 50 node names (\<open>truncated_nodeCount\<close>). But the note is attached by
  looking at the first emitted document only (\<open>first_document_annotated\<close>), although its text
  speaks of every document. On a snapshot whose first document has one element and whose
  second has 51, the second document is emitted with 50 of its 51 elements and the output
  carries no note.
\<close>

theorem captureDomSnapshot_unannotated_truncation:
  "fst (captureDomSnapshot
          (idle_browser\<lparr>reply_captureSnapshot := (\<lambda>s c. Inr two_documents)\<rparr>) None []) =
     Inr (format_snapshot two_documents)
   \<and> map sd_nodeCount (res_documents (format_snapshot two_documents)) = [1, 51]
   \<and> map (\<lambda>d. length (sd_nodes d)) (res_documents (format_snapshot two_documents)) = [1, 50]
   \<and> truncated (snap_strings two_documents) (1, snap_documents two_documents ! 1)
   \<and> res_note (format_snapshot two_documents) = None"
proof -
  have "fst (captureDomSnapshot
          (idle_browser\<lparr>reply_captureSnapshot := (\<lambda>s c. Inr two_documents)\<rparr>) None []) =
     Inr (format_snapshot two_documents)"
    by (simp add: captureDomSnapshot_def bind_io_def send_def return_io_def idle_browser_def)
  moreover have "map sd_nodeCount (res_documents (format_snapshot two_documents)) = [1, 51]
   \<and> map (\<lambda>d. length (sd_nodes d)) (res_documents (format_snapshot two_documents)) = [1, 50]
   \<and> truncated (snap_strings two_documents) (1, snap_documents two_documents ! 1)
   \<and> res_note (format_snapshot two_documents) = None"
    by code_simp
  ultimately show ?thesis by (rule conjI)
qed

section \<open>Empty attributes in the element reports\<close>


































end
